theory Spec2Isabelle
  imports Main "HOL-Library.Word"
begin

unbundle bit_operations_syntax

section \<open>Python values and exceptions\<close>

text \<open>
  The JSON-shaped values the add-ons pass around (request bodies, webhook events, API
  responses). A dict is an association list read with \<open>map_of\<close>: the first binding of
  a key is the one the dict holds. JSON floats are not part of the embedding.
\<close>

datatype pyval =
    PNone
  | PBool bool
  | PInt int
  | PStr string
  | PList "pyval list"
  | PDict "(string \<times> pyval) list"

type_synonym pydict = "(string \<times> pyval) list"

text \<open>The exceptions the modelled code raises or lets through.\<close>

datatype exn =
    ValidationError string
  | AttributeError
  | TypeError
  | JSONDecodeError
  | UnicodeDecodeError
  | UnicodeEncodeError
  | RequestException
  | OtherError string
  | PyException pyval

text \<open>Python truthiness, as \<open>if x:\<close>, \<open>not x\<close> and \<open>x or y\<close> read a value.\<close>

fun truthy :: "pyval \<Rightarrow> bool" where
  "truthy PNone = False"
| "truthy (PBool b) = b"
| "truthy (PInt i) = (i \<noteq> 0)"
| "truthy (PStr s) = (s \<noteq> [])"
| "truthy (PList xs) = (xs \<noteq> [])"
| "truthy (PDict kvs) = (kvs \<noteq> [])"

text \<open>\<open>d.get(k, default)\<close> on a dict.\<close>

definition dict_get :: "pydict \<Rightarrow> string \<Rightarrow> pyval \<Rightarrow> pyval" where
  "dict_get d k dflt = (case map_of d k of None \<Rightarrow> dflt | Some v \<Rightarrow> v)"

text \<open>\<open>d[k] = v\<close> on a dict: the new binding is the one later reads find.\<close>

definition dict_set :: "pydict \<Rightarrow> string \<Rightarrow> pyval \<Rightarrow> pydict" where
  "dict_set d k v = (k, v) # filter (\<lambda>kv. fst kv \<noteq> k) d"

text \<open>
  \<open>x.get(k, default)\<close> on any value: only a dict has \<open>get\<close>; on \<open>None\<close>, a string, a
  number or a list Python raises AttributeError.
\<close>

fun py_get :: "pyval \<Rightarrow> string \<Rightarrow> pyval \<Rightarrow> exn + pyval" where
  "py_get (PDict d) k dflt = Inr (dict_get d k dflt)"
| "py_get _ k dflt = Inl AttributeError"

section \<open>const.py\<close>

definition API_BASE_URL :: string where
  "API_BASE_URL = ''https://api.justifi.ai''"

definition OAUTH_TOKEN_URL :: string where
  "OAUTH_TOKEN_URL = API_BASE_URL @ ''/oauth/token''"

text \<open>Transaction states mapping from JustiFi to Odoo, in the order of the source.\<close>

definition STATUS_MAPPING :: "(string \<times> string) list" where
  "STATUS_MAPPING =
    [(''completed'', ''done''),
     (''succeeded'', ''done''),
     (''pending'', ''pending''),
     (''created'', ''pending''),
     (''failed'', ''error''),
     (''canceled'', ''cancel'')]"

text \<open>
  \<open>STATUS_MAPPING.get(status, 'pending')\<close>. The key may be any value a JSON body
  holds: a string is looked up, \<open>None\<close>, a boolean and a number hash and are not keys of
  the table, a list or a dict is unhashable and \<open>dict.get\<close> raises TypeError.
\<close>

fun status_lookup :: "pyval \<Rightarrow> exn + string" where
  "status_lookup (PStr s) =
     Inr (case map_of STATUS_MAPPING s of None \<Rightarrow> ''pending'' | Some st \<Rightarrow> st)"
| "status_lookup (PList xs) = Inl TypeError"
| "status_lookup (PDict d) = Inl TypeError"
| "status_lookup _ = Inr ''pending''"

section \<open>Text, bytes and the signature check\<close>

text \<open>
  Where the encoding matters, a Python \<open>str\<close> is its sequence of code points and a
  \<open>bytes\<close> object a list of 8-bit words.
\<close>

type_synonym byte = "8 word"
type_synonym pystr = "nat list"

definition cont :: "nat \<Rightarrow> bool" where
  "cont b = (128 \<le> b \<and> b < 192)"

text \<open>
  \<open>bytes.decode('utf-8')\<close>, strict: the well-formed byte sequences of UTF-8 and nothing
  else (no overlong form, no surrogate, nothing above U+10FFFF, no truncated sequence).
  \<open>None\<close> is UnicodeDecodeError.
\<close>

fun utf8_dec :: "nat list \<Rightarrow> nat list option" where
  "utf8_dec [] = Some []"
| "utf8_dec (b0 # bs) =
    (if b0 < 128 then map_option ((#) b0) (utf8_dec bs)
     else if 194 \<le> b0 \<and> b0 < 224 then
       (case bs of
          b1 # r \<Rightarrow>
            if cont b1
            then map_option ((#) ((b0 - 192) * 64 + (b1 - 128))) (utf8_dec r)
            else None
        | _ \<Rightarrow> None)
     else if 224 \<le> b0 \<and> b0 < 240 then
       (case bs of
          b1 # b2 # r \<Rightarrow>
            if cont b1 \<and> cont b2 \<and> (b0 = 224 \<longrightarrow> 160 \<le> b1) \<and> (b0 = 237 \<longrightarrow> b1 < 160)
            then map_option ((#) ((b0 - 224) * 4096 + (b1 - 128) * 64 + (b2 - 128))) (utf8_dec r)
            else None
        | _ \<Rightarrow> None)
     else if 240 \<le> b0 \<and> b0 < 245 then
       (case bs of
          b1 # b2 # b3 # r \<Rightarrow>
            if cont b1 \<and> cont b2 \<and> cont b3 \<and> (b0 = 240 \<longrightarrow> 144 \<le> b1) \<and> (b0 = 244 \<longrightarrow> b1 < 144)
            then map_option
                   ((#) ((b0 - 240) * 262144 + (b1 - 128) * 4096 + (b2 - 128) * 64 + (b3 - 128)))
                   (utf8_dec r)
            else None
        | _ \<Rightarrow> None)
     else None)"

text \<open>
  \<open>str.encode('utf-8')\<close>, strict: a lone surrogate cannot be encoded
  (UnicodeEncodeError, here \<open>None\<close>).
\<close>

definition utf8_enc1 :: "nat \<Rightarrow> nat list option" where
  "utf8_enc1 cp =
    (if cp < 128 then Some [cp]
     else if cp < 2048 then Some [192 + cp div 64, 128 + cp mod 64]
     else if cp < 65536 then
       (if 55296 \<le> cp \<and> cp < 57344 then None
        else Some [224 + cp div 4096, 128 + cp div 64 mod 64, 128 + cp mod 64])
     else if cp < 1114112 then
       Some [240 + cp div 262144, 128 + cp div 4096 mod 64, 128 + cp div 64 mod 64, 128 + cp mod 64]
     else None)"

fun utf8_enc :: "nat list \<Rightarrow> nat list option" where
  "utf8_enc [] = Some []"
| "utf8_enc (c # cs) =
    (case utf8_enc1 c of
       None \<Rightarrow> None
     | Some bs \<Rightarrow> map_option ((@) bs) (utf8_enc cs))"

definition py_decode :: "byte list \<Rightarrow> exn + pystr" where
  "py_decode bs =
     (case utf8_dec (map unat bs) of None \<Rightarrow> Inl UnicodeDecodeError | Some s \<Rightarrow> Inr s)"

definition py_encode :: "pystr \<Rightarrow> exn + byte list" where
  "py_encode s =
     (case utf8_enc s of None \<Rightarrow> Inl UnicodeEncodeError | Some bs \<Rightarrow> Inr (map of_nat bs))"

text \<open>\<open>hexdigest()\<close>: two lower-case hexadecimal digits for each byte of the digest.\<close>

definition hex_digit :: "nat \<Rightarrow> nat" where
  "hex_digit n = (if n < 10 then 48 + n else 87 + n)"

definition hexdigest :: "byte list \<Rightarrow> pystr" where
  "hexdigest bs = concat (map (\<lambda>b. [hex_digit (unat b div 16), hex_digit (unat b mod 16)]) bs)"

text \<open>
  \<open>hmac.compare_digest(a, b)\<close> on two \<open>str\<close>: the comparison whose running time does
  not depend on where the strings differ. It takes ASCII-only strings and raises
  TypeError on any other. The embedding keeps its value, not its timing.
\<close>

definition is_ascii :: "pystr \<Rightarrow> bool" where
  "is_ascii s = list_all (\<lambda>c. c < 128) s"

definition compare_digest :: "pystr \<Rightarrow> pystr \<Rightarrow> exn + bool" where
  "compare_digest a b = (if is_ascii a \<and> is_ascii b then Inr (a = b) else Inl TypeError)"

text \<open>The \<open>payload\<close> argument is the raw request body (bytes) or text already decoded.\<close>

datatype payload = Bytes "byte list" | Str pystr

text \<open>
  \<open>_verify_webhook_signature(payload, signature, secret)\<close>. HMAC-SHA256 is Python's
  \<open>hmac.new(key, msg, hashlib.sha256).digest()\<close>, a function of the key bytes and the
  message bytes; it is the parameter \<open>hmac_sha256\<close>.
\<close>

definition verify_webhook_signature ::
  "(byte list \<Rightarrow> byte list \<Rightarrow> byte list) \<Rightarrow> payload \<Rightarrow> pystr \<Rightarrow> pystr \<Rightarrow> exn + bool" where
  "verify_webhook_signature hmac_sha256 payload signature secret =
     (case (case payload of Bytes bs \<Rightarrow> py_decode bs | Str s \<Rightarrow> Inr s) of
        Inl e \<Rightarrow> Inl e
      | Inr text \<Rightarrow>
          (case py_encode secret of
             Inl e \<Rightarrow> Inl e
           | Inr key \<Rightarrow>
               (case py_encode text of
                  Inl e \<Rightarrow> Inl e
                | Inr msg \<Rightarrow> compare_digest (hexdigest (hmac_sha256 key msg)) signature)))"

text \<open>The bytes the HMAC is keyed over when the payload is well-formed.\<close>

definition raw_body :: "payload \<Rightarrow> byte list option" where
  "raw_body p =
     (case p of
        Bytes bs \<Rightarrow> (if utf8_dec (map unat bs) = None then None else Some bs)
      | Str s \<Rightarrow> map_option (map of_nat) (utf8_enc s))"


section \<open>Records of the host\<close>

text \<open>
  The fields of \<open>payment.provider\<close> and \<open>payment.transaction\<close> the add-on reads and
  writes. A Char field holds \<open>False\<close> (here \<open>None\<close>) or a string. Searches are the host
  ORM's: a search with \<open>limit=1\<close> is a function from the domain to at most one record,
  and the models take it as a parameter.
\<close>

record provider =
  provider_id :: nat
  code :: string
  provider_state :: string
  justifi_client_id :: "string option"
  justifi_client_secret :: "string option"
  justifi_account_id :: "string option"
  justifi_webhook_secret :: "pystr option"

record transaction =
  tx_id :: nat
  reference :: string
  provider_reference :: pyval
  tx_state :: string
  tx_provider_id :: nat

type_synonym domain = "(string \<times> string \<times> pyval) list"

definition char_truthy :: "'a list option \<Rightarrow> bool" where
  "char_truthy f = (case f of None \<Rightarrow> False | Some s \<Rightarrow> s \<noteq> [])"

text \<open>\<open>[('provider_reference', '=', ref), ('provider_id', '=', provider.id)]\<close>\<close>

definition tx_domain :: "provider \<Rightarrow> pyval \<Rightarrow> domain" where
  "tx_domain p ref =
     [(''provider_reference'', ''='', ref), (''provider_id'', ''='', PInt (int (provider_id p)))]"

text \<open>\<open>[('code', '=', 'justifi'), ('state', '!=', 'disabled')]\<close>\<close>

definition active_provider_domain :: domain where
  "active_provider_domain =
     [(''code'', ''='', PStr ''justifi''), (''state'', ''!='', PStr ''disabled'')]"

section \<open>payment\_transaction.py\<close>

text \<open>
  The transitions of the host that \<open>_justifi_process_payment_data\<close> invokes on the
  transaction, in the order it invokes them. \<open>SetError v\<close> is
  \<open>_set_error(f"JustiFi: {v}")\<close>; \<open>PostProcess\<close> is the call of \<open>_post_process\<close>, whose
  own exceptions the source catches and logs.
\<close>

datatype tx_action = SetDone | PostProcess | SetPending | SetError pyval | SetCanceled

text \<open>\<open>a or b\<close> on two values that are already computed.\<close>

definition py_or :: "pyval \<Rightarrow> pyval \<Rightarrow> pyval" where
  "py_or a b = (if truthy a then a else b)"

text \<open>
  \<open>_justifi_process_payment_data(self, payment_data)\<close> on one transaction. The result
  is the transaction after the writes to \<open>provider_reference\<close>, the host transitions
  invoked, and the exception that ended the call, if one did.
\<close>

definition justifi_process_payment_data ::
  "transaction \<Rightarrow> pydict \<Rightarrow> transaction \<times> tx_action list \<times> exn option" where
  "justifi_process_payment_data tx payment_data =
     (let checkout_id = py_or (dict_get payment_data ''checkout_id'' PNone)
                              (dict_get payment_data ''id'' PNone);
          status = dict_get payment_data ''status'' (PStr []);
          payment_id = dict_get payment_data ''successful_payment_id'' (PStr [])
      in case status_lookup status of
           Inl e \<Rightarrow> (tx, [], Some e)
         | Inr odoo_state \<Rightarrow>
             (let tx' =
                (if truthy payment_id then tx\<lparr>provider_reference := payment_id\<rparr>
                 else if truthy checkout_id \<and> \<not> truthy (provider_reference tx)
                 then tx\<lparr>provider_reference := checkout_id\<rparr>
                 else tx)
              in if odoo_state = ''done'' then (tx', [SetDone, PostProcess], None)
                 else if odoo_state = ''pending'' then (tx', [SetPending], None)
                 else if odoo_state = ''error'' then
                   (case py_get (dict_get payment_data ''error'' (PDict []))
                           ''message'' (PStr ''Payment failed'') of
                      Inl e \<Rightarrow> (tx', [], Some e)
                    | Inr error_msg \<Rightarrow> (tx', [SetError error_msg], None))
                 else if odoo_state = ''cancel'' then (tx', [SetCanceled], None)
                 else (tx', [], None)))"

text \<open>
  \<open>notification_data.get(k) or notification_data.get('data', {}).get(k2)\<close>: the
  second operand is evaluated only when the first is falsy.
\<close>

definition notification_field :: "pydict \<Rightarrow> string \<Rightarrow> string \<Rightarrow> exn + pyval" where
  "notification_field nd k k2 =
     (let a = dict_get nd k PNone
      in if truthy a then Inr a else py_get (dict_get nd ''data'' (PDict [])) k2 PNone)"

text \<open>
  \<open>_justifi_get_tx_from_notification_data(provider, notification_data)\<close>. The result
  carries the searches issued, in order.
\<close>

definition justifi_get_tx_from_notification_data ::
  "(domain \<Rightarrow> transaction option) \<Rightarrow> provider \<Rightarrow> pydict \<Rightarrow> (exn + transaction) \<times> domain list"
  where
  "justifi_get_tx_from_notification_data search p nd =
     (case notification_field nd ''checkout_id'' ''id'' of
        Inl e \<Rightarrow> (Inl e, [])
      | Inr checkout_id \<Rightarrow>
          (case notification_field nd ''successful_payment_id'' ''successful_payment_id'' of
             Inl e \<Rightarrow> (Inl e, [])
           | Inr payment_id \<Rightarrow>
               if \<not> truthy checkout_id \<and> \<not> truthy payment_id
               then (Inl (ValidationError
                       ''JustiFi: Missing checkout_id or payment_id in notification data''), [])
               else
                 (let s1 = (if truthy checkout_id then [tx_domain p checkout_id] else []);
                      tx = (if truthy checkout_id then search (tx_domain p checkout_id) else None);
                      s2 = (if tx = None \<and> truthy payment_id then [tx_domain p payment_id] else []);
                      tx2 = (if tx = None \<and> truthy payment_id
                             then search (tx_domain p payment_id) else tx)
                  in case tx2 of
                       None \<Rightarrow> (Inl (ValidationError ''JustiFi: Transaction not found''), s1 @ s2)
                     | Some found \<Rightarrow> (Inr found, s1 @ s2))))"

section \<open>controllers/main.py of payment\_justifi\<close>

text \<open>
  A handler's result: the exception that ended it, if any, and the call of
  \<open>_justifi_process_payment_data\<close> it made, as the receiving transaction and the
  argument. What the call does to the transaction is \<open>justifi_process_payment_data\<close>
  of the two.
\<close>

type_synonym handled = "exn option \<times> (transaction \<times> pydict) option"

definition finished :: "transaction \<Rightarrow> bool" where
  "finished tx = (tx_state tx = ''done'' \<or> tx_state tx = ''cancel'')"

definition process_call :: "transaction \<Rightarrow> pydict \<Rightarrow> handled" where
  "process_call tx d = (snd (snd (justifi_process_payment_data tx d)), Some (tx, d))"

definition handle_payment_success ::
  "(domain \<Rightarrow> transaction option) \<Rightarrow> provider \<Rightarrow> pyval \<Rightarrow> handled" where
  "handle_payment_success search p event_data =
     (case py_get event_data ''id'' (PStr []) of
        Inl e \<Rightarrow> (Some e, None)
      | Inr checkout_id \<Rightarrow>
          (case py_get event_data ''successful_payment_id'' (PStr []) of
             Inl e \<Rightarrow> (Some e, None)
           | Inr payment_id \<Rightarrow>
               (let tx = (if truthy checkout_id then search (tx_domain p checkout_id) else None);
                    tx2 = (if tx = None \<and> truthy payment_id
                           then search (tx_domain p payment_id) else tx)
                in case (tx2, event_data) of
                     (Some found, PDict d) \<Rightarrow>
                       if \<not> finished found
                       then process_call found
                              (dict_set (dict_set d ''status'' (PStr ''completed''))
                                 ''checkout_id'' checkout_id)
                       else (None, None)
                   | _ \<Rightarrow> (None, None))))"

definition handle_payment_failure ::
  "(domain \<Rightarrow> transaction option) \<Rightarrow> provider \<Rightarrow> pyval \<Rightarrow> handled" where
  "handle_payment_failure search p event_data =
     (case py_get event_data ''id'' (PStr []) of
        Inl e \<Rightarrow> (Some e, None)
      | Inr checkout_id \<Rightarrow>
          (case py_get event_data ''error'' (PDict []) of
             Inl e \<Rightarrow> (Some e, None)
           | Inr err \<Rightarrow>
               (case py_get err ''message'' (PStr ''Payment failed'') of
                  Inl e \<Rightarrow> (Some e, None)
                | Inr error_message \<Rightarrow>
                    (case (search (tx_domain p checkout_id), event_data) of
                       (Some found, PDict d) \<Rightarrow>
                         if \<not> finished found
                         then process_call found
                                (dict_set (dict_set d ''status'' (PStr ''failed''))
                                   ''checkout_id'' checkout_id)
                         else (None, None)
                     | _ \<Rightarrow> (None, None)))))"

text \<open>
  The webhook request: the parsed JSON body (\<open>request.jsonrequest\<close>), the raw body
  (\<open>request.httprequest.data\<close>) and the \<open>Justifi-Signature\<close> header, if sent.
\<close>

record webhook_request =
  jsonrequest :: pyval
  httprequest_data :: "byte list"
  justifi_signature :: "pystr option"

text \<open>
  The dict the endpoint answers with: \<open>{'status': 'ok'}\<close>,
  \<open>{'status': 'error', 'message': m}\<close> for a fixed message, or the same with
  \<open>str(e)\<close> of the exception the endpoint caught.
\<close>

datatype webhook_response = RespOk | RespError string | RespRaised exn

record webhook_result =
  response :: webhook_response
  signature_checked :: bool
  processed :: "(transaction \<times> pydict) option"

text \<open>The part of \<open>justifi_webhook\<close> after the signature gate: "Process based on event type".\<close>

definition webhook_dispatch ::
  "(domain \<Rightarrow> transaction option) \<Rightarrow> provider \<Rightarrow> pyval \<Rightarrow> pyval \<Rightarrow> handled" where
  "webhook_dispatch search p event_type event_data =
     (if event_type = PStr ''payment.succeeded'' \<or> event_type = PStr ''checkout.completed''
      then handle_payment_success search p event_data
      else if event_type = PStr ''payment.failed''
      then handle_payment_failure search p event_data
      else (None, None))"

definition handled_result :: "bool \<Rightarrow> handled \<Rightarrow> webhook_result" where
  "handled_result checked h =
     \<lparr>response = (case fst h of None \<Rightarrow> RespOk | Some e \<Rightarrow> RespRaised e),
      signature_checked = checked,
      processed = snd h\<rparr>"

definition justifi_webhook ::
  "(byte list \<Rightarrow> byte list \<Rightarrow> byte list) \<Rightarrow> (domain \<Rightarrow> provider option) \<Rightarrow>
   (domain \<Rightarrow> transaction option) \<Rightarrow> webhook_request \<Rightarrow> webhook_result" where
  "justifi_webhook hmac_sha256 search_provider search req =
     (case py_get (jsonrequest req) ''event_type'' (PStr []) of
        Inl e \<Rightarrow> \<lparr>response = RespRaised e, signature_checked = False, processed = None\<rparr>
      | Inr event_type \<Rightarrow>
          (case py_get (jsonrequest req) ''data'' (PDict []) of
             Inl e \<Rightarrow> \<lparr>response = RespRaised e, signature_checked = False, processed = None\<rparr>
           | Inr event_data \<Rightarrow>
               (let signature = (case justifi_signature req of None \<Rightarrow> [] | Some s \<Rightarrow> s)
                in case search_provider active_provider_domain of
                     None \<Rightarrow>
                       \<lparr>response = RespError ''Provider not found'',
                        signature_checked = False, processed = None\<rparr>
                   | Some p \<Rightarrow>
                       if char_truthy (justifi_webhook_secret p) \<and> signature \<noteq> []
                       then
                         (case verify_webhook_signature hmac_sha256
                                 (Bytes (httprequest_data req)) signature
                                 (case justifi_webhook_secret p of None \<Rightarrow> [] | Some s \<Rightarrow> s) of
                            Inl e \<Rightarrow>
                              \<lparr>response = RespRaised e, signature_checked = True,
                               processed = None\<rparr>
                          | Inr ok \<Rightarrow>
                              if \<not> ok
                              then \<lparr>response = RespError ''Invalid signature'',
                                    signature_checked = True, processed = None\<rparr>
                              else handled_result True
                                     (webhook_dispatch search p event_type event_data))
                       else handled_result False
                              (webhook_dispatch search p event_type event_data))))"

section \<open>HTTP calls\<close>

text \<open>
  An f-string is kept as its pieces, literal text and formatted values, so that a request
  is the request the source builds whatever \<open>str()\<close> makes of a value.
  \<open>render\<close> gives the text for a given \<open>str()\<close> of the values that are not strings.
\<close>

datatype fpart = Lit string | Fmt pyval

type_synonym fstring = "fpart list"

fun render_part :: "(pyval \<Rightarrow> string) \<Rightarrow> fpart \<Rightarrow> string" where
  "render_part str_of (Lit s) = s"
| "render_part str_of (Fmt (PStr s)) = s"
| "render_part str_of (Fmt v) = str_of v"

definition render :: "(pyval \<Rightarrow> string) \<Rightarrow> fstring \<Rightarrow> string" where
  "render str_of f = concat (map (render_part str_of) f)"

text \<open>The value of a Char field as Python sees it: \<open>False\<close> or the string.\<close>

definition char_val :: "string option \<Rightarrow> pyval" where
  "char_val f = (case f of None \<Rightarrow> PBool False | Some s \<Rightarrow> PStr s)"

record http_request =
  url :: fstring
  headers :: "(string \<times> fstring) list"
  json :: pyval
  timeout :: nat

text \<open>
  A response: its status code and what \<open>response.json()\<close> gives, \<open>None\<close> when the body
  is not JSON (JSONDecodeError).
\<close>

record http_response =
  status_code :: int
  json_body :: "pyval option"

text \<open>
  \<open>requests.post\<close> and the remote side are a parameter: a function from the request to
  the exception raised or the response received. The state threaded through the calls is
  the list of calls of \<open>requests.post\<close> made so far and the number of 16-byte draws taken
  from the system's random source.
\<close>

type_synonym net = "http_request \<Rightarrow> exn + http_response"

record world =
  posted :: "http_request list"
  drawn :: nat

definition requests_post :: "net \<Rightarrow> http_request \<Rightarrow> world \<Rightarrow> (exn + http_response) \<times> world" where
  "requests_post nw req w = (nw req, w\<lparr>posted := posted w @ [req]\<rparr>)"

section \<open>payment\_provider.py\<close>

definition token_request :: "provider \<Rightarrow> http_request" where
  "token_request p =
     \<lparr>url = [Lit OAUTH_TOKEN_URL],
      headers = [(''Content-Type'', [Lit ''application/json''])],
      json = PDict [(''client_id'', char_val (justifi_client_id p)),
                    (''client_secret'', char_val (justifi_client_secret p))],
      timeout = 30\<rparr>"

text \<open>\<open>_justifi_get_access_token(self)\<close> on one provider.\<close>

definition justifi_get_access_token :: "net \<Rightarrow> provider \<Rightarrow> world \<Rightarrow> (exn + pyval) \<times> world" where
  "justifi_get_access_token nw p w =
     (if \<not> char_truthy (justifi_client_id p) \<or> \<not> char_truthy (justifi_client_secret p)
      then (Inl (ValidationError ''JustiFi Client ID and Client Secret are required.''), w)
      else
        (case requests_post nw (token_request p) w of
           (Inl e, w') \<Rightarrow>
             if e = RequestException
             then (Inl (ValidationError
                     ''Could not connect to JustiFi. Please try again later.''), w')
             else (Inl e, w')
         | (Inr resp, w') \<Rightarrow>
             if status_code resp \<noteq> 200
             then (Inl (ValidationError
                     ''JustiFi authentication failed. Please check your credentials.''), w')
             else
               (case json_body resp of
                  None \<Rightarrow> (Inl JSONDecodeError, w')
                | Some data \<Rightarrow>
                    (case py_get data ''access_token'' PNone of
                       Inl e \<Rightarrow> (Inl e, w')
                     | Inr access_token \<Rightarrow>
                         if \<not> truthy access_token
                         then (Inl (ValidationError
                                 ''JustiFi authentication failed. No access token received.''), w')
                         else (Inr access_token, w')))))"

definition is_validation_error :: "exn + 'a \<Rightarrow> bool" where
  "is_validation_error r = (case r of Inl (ValidationError m) \<Rightarrow> True | _ \<Rightarrow> False)"

section \<open>The terminal calls of pos\_payment\_justifi\<close>

definition TERMINALS_URL :: string where
  "TERMINALS_URL = ''https://api.justifi.ai/v1/terminals''"

text \<open>
  \<open>uuid.uuid4()\<close> is \<open>UUID(bytes=os.urandom(16), version=4)\<close>: sixteen bytes of the
  system's random source, where the two top bits of byte 8 are set to binary 10 (the
  variant; on the integer, \<open>int &= ~(0xc000 << 48); int |= 0x8000 << 48\<close>) and the top
  four bits of byte 6 to 4 (the version; \<open>int &= ~(0xf000 << 64); int |= 4 << 76\<close>).
  The random source is a parameter: \<open>urandom n i\<close> is byte \<open>i\<close> of the 16 bytes of its
  draw number \<open>n\<close>.
\<close>

definition uuid4 :: "(nat \<Rightarrow> byte) \<Rightarrow> byte list" where
  "uuid4 r =
     map (\<lambda>i. if i = 6 then (r 6 AND 0x0F) OR 0x40
              else if i = 8 then (r 8 AND 0x3F) OR 0x80
              else r i) [0..<16]"

text \<open>
  \<open>str()\<close> of a UUID: the 32 lower-case hexadecimal digits of its 16 bytes in groups of
  8, 4, 4, 4 and 12 with a hyphen between the groups.
\<close>

definition hex_str :: "byte list \<Rightarrow> string" where
  "hex_str bs = map char_of (hexdigest bs)"

definition uuid_str :: "byte list \<Rightarrow> string" where
  "uuid_str u =
     (let h = hex_str u
      in take 8 h @ ''-'' @ take 4 (drop 8 h) @ ''-'' @ take 4 (drop 12 h) @ ''-''
         @ take 4 (drop 16 h) @ ''-'' @ drop 20 h)"

text \<open>
  The message of the exception the two terminal-pay functions raise on a status of 400
  or more: \<open>error_data['error']['message']\<close> when the body is a JSON object whose
  \<open>error\<close> entry is an object with a \<open>message\<close>; in every other case the test is false
  or raises inside the \<open>try\<close>, and the default stays.
\<close>

definition response_error_message :: "http_response \<Rightarrow> pyval \<Rightarrow> pyval" where
  "response_error_message resp dflt =
     (case json_body resp of
        Some (PDict d) \<Rightarrow>
          (case map_of d ''error'' of
             Some (PDict e) \<Rightarrow> (case map_of e ''message'' of Some m \<Rightarrow> m | None \<Rightarrow> dflt)
           | _ \<Rightarrow> dflt)
      | _ \<Rightarrow> dflt)"

text \<open>\<open>data = response.json(); return data.get('data', data)\<close>\<close>

definition response_data :: "http_response \<Rightarrow> exn + pyval" where
  "response_data resp =
     (case json_body resp of
        None \<Rightarrow> Inl JSONDecodeError
      | Some data \<Rightarrow> py_get data ''data'' data)"

text \<open>The request of \<open>PosPaymentMethod._justifi_send_to_terminal\<close> (the POS model).\<close>

definition model_pay_request :: "provider \<Rightarrow> pyval \<Rightarrow> string \<Rightarrow> pyval \<Rightarrow> pyval \<Rightarrow> http_request" where
  "model_pay_request p access_token idempotency_key terminal_id checkout_id =
     \<lparr>url = [Lit TERMINALS_URL, Lit ''/pay''],
      headers = [(''Authorization'', [Lit ''Bearer '', Fmt access_token]),
                 (''Content-Type'', [Lit ''application/json'']),
                 (''Sub-Account'', [Fmt (char_val (justifi_account_id p))]),
                 (''Idempotency-Key'', [Lit idempotency_key])],
      json = PDict [(''checkout_id'', checkout_id), (''terminal_id'', terminal_id)],
      timeout = 30\<rparr>"

text \<open>The request of \<open>PosJustiFiController._send_to_terminal\<close> (the POS controller).\<close>

definition controller_pay_request ::
  "provider \<Rightarrow> pyval \<Rightarrow> string \<Rightarrow> pyval \<Rightarrow> pyval \<Rightarrow> http_request" where
  "controller_pay_request p access_token idempotency_key terminal_id checkout_id =
     \<lparr>url = [Lit TERMINALS_URL, Lit ''/'', Fmt terminal_id, Lit ''/pay''],
      headers = [(''Authorization'', [Lit ''Bearer '', Fmt access_token]),
                 (''Content-Type'', [Lit ''application/json'']),
                 (''Sub-Account'', [Fmt (char_val (justifi_account_id p))]),
                 (''Idempotency-Key'', [Lit idempotency_key])],
      json = PDict [(''checkout_id'', checkout_id)],
      timeout = 30\<rparr>"

text \<open>
  The body the two functions share, with the request each builds as the parameter
  \<open>build\<close>: the token, the fresh UUID, the POST, the exception on a status of 400 or
  more, the data of the response.
\<close>

definition send_to_terminal_with ::
  "(provider \<Rightarrow> pyval \<Rightarrow> string \<Rightarrow> pyval \<Rightarrow> pyval \<Rightarrow> http_request) \<Rightarrow>
   net \<Rightarrow> (nat \<Rightarrow> nat \<Rightarrow> byte) \<Rightarrow> provider \<Rightarrow> pyval \<Rightarrow> pyval \<Rightarrow> world \<Rightarrow> (exn + pyval) \<times> world"
  where
  "send_to_terminal_with build nw urandom p terminal_id checkout_id w =
     (case justifi_get_access_token nw p w of
        (Inl e, w1) \<Rightarrow> (Inl e, w1)
      | (Inr access_token, w1) \<Rightarrow>
          (let key = uuid_str (uuid4 (urandom (drawn w1)));
               w2 = w1\<lparr>drawn := Suc (drawn w1)\<rparr>
           in case requests_post nw (build p access_token key terminal_id checkout_id) w2 of
                (Inl e, w3) \<Rightarrow> (Inl e, w3)
              | (Inr resp, w3) \<Rightarrow>
                  if status_code resp \<ge> 400
                  then (Inl (PyException
                          (response_error_message resp
                             (PStr ''Failed to send payment to terminal''))), w3)
                  else (response_data resp, w3)))"

definition justifi_send_to_terminal ::
  "net \<Rightarrow> (nat \<Rightarrow> nat \<Rightarrow> byte) \<Rightarrow> provider \<Rightarrow> pyval \<Rightarrow> pyval \<Rightarrow> world \<Rightarrow> (exn + pyval) \<times> world"
  where
  "justifi_send_to_terminal = send_to_terminal_with model_pay_request"

definition send_to_terminal ::
  "net \<Rightarrow> (nat \<Rightarrow> nat \<Rightarrow> byte) \<Rightarrow> provider \<Rightarrow> pyval \<Rightarrow> pyval \<Rightarrow> world \<Rightarrow> (exn + pyval) \<times> world"
  where
  "send_to_terminal = send_to_terminal_with controller_pay_request"

definition cancel_request :: "provider \<Rightarrow> pyval \<Rightarrow> pyval \<Rightarrow> pyval \<Rightarrow> http_request" where
  "cancel_request p access_token terminal_id checkout_id =
     \<lparr>url = [Lit TERMINALS_URL, Lit ''/'', Fmt terminal_id, Lit ''/cancel''],
      headers = [(''Authorization'', [Lit ''Bearer '', Fmt access_token]),
                 (''Content-Type'', [Lit ''application/json'']),
                 (''Sub-Account'', [Fmt (char_val (justifi_account_id p))])],
      json = PDict [(''checkout_id'', checkout_id)],
      timeout = 30\<rparr>"

text \<open>
  \<open>_justifi_cancel_terminal_action\<close>: a status of 400 or more is logged only; any
  exception of \<open>response.json()\<close> or of \<open>data.get\<close> gives the empty dict.
\<close>

definition justifi_cancel_terminal_action ::
  "net \<Rightarrow> provider \<Rightarrow> pyval \<Rightarrow> pyval \<Rightarrow> world \<Rightarrow> (exn + pyval) \<times> world" where
  "justifi_cancel_terminal_action nw p terminal_id checkout_id w =
     (case justifi_get_access_token nw p w of
        (Inl e, w1) \<Rightarrow> (Inl e, w1)
      | (Inr access_token, w1) \<Rightarrow>
          (case requests_post nw (cancel_request p access_token terminal_id checkout_id) w1 of
             (Inl e, w2) \<Rightarrow> (Inl e, w2)
           | (Inr resp, w2) \<Rightarrow>
               (case response_data resp of
                  Inl e \<Rightarrow> (Inr (PDict []), w2)
                | Inr data \<Rightarrow> (Inr data, w2))))"

text \<open>
  What an RPC method answers: a dict, or \<open>{'error': str(e)}\<close> for the exception it
  caught.
\<close>

datatype rpc_result = Result pyval | ErrorOf exn

definition justifi_cancel_payment ::
  "net \<Rightarrow> (domain \<Rightarrow> provider option) \<Rightarrow> pyval \<Rightarrow> pyval \<Rightarrow> world \<Rightarrow> rpc_result \<times> world" where
  "justifi_cancel_payment nw search_provider checkout_id terminal_id w =
     (case search_provider active_provider_domain of
        None \<Rightarrow> (Result (PDict [(''error'', PStr ''JustiFi provider not found'')]), w)
      | Some p \<Rightarrow>
          (case justifi_cancel_terminal_action nw p terminal_id checkout_id w of
             (Inl e, w') \<Rightarrow> (ErrorOf e, w')
           | (Inr res, w') \<Rightarrow>
               (Result (PDict [(''success'', PBool True), (''cancelled'', PBool True)]), w')))"

section \<open>The status table\<close>

text \<open>
  C1, as stated: the table has exactly five vendor status strings as keys. The source has
  six; the statement is false of it.
\<close>

theorem STATUS_MAPPING_not_five_keys:
  "card (fst ` set STATUS_MAPPING) \<noteq> 5"
  by (simp add: STATUS_MAPPING_def)

text \<open>
  C1, amended: STATUS_MAPPING is a fixed dictionary with exactly six vendor status strings
  as keys (completed, succeeded, pending, created, failed, canceled), no key twice, and
  the local states it maps them to are exactly the four states done, pending, error and
  cancel.
\<close>

theorem STATUS_MAPPING_six_keys_four_states:
  "map fst STATUS_MAPPING =
     [''completed'', ''succeeded'', ''pending'', ''created'', ''failed'', ''canceled'']
   \<and> distinct (map fst STATUS_MAPPING)
   \<and> card (fst ` set STATUS_MAPPING) = 6
   \<and> snd ` set STATUS_MAPPING = {''done'', ''pending'', ''error'', ''cancel''}"
  by (simp add: STATUS_MAPPING_def insert_commute)

section \<open>The webhook signature\<close>

text \<open>
  C2, as stated: for every payload the function returns True exactly when the HMAC over
  the raw payload equals the signature. A body that is not well-formed UTF-8 is a payload
  for which it fails: whatever the digest function, on the one-byte body FF with the
  secret "k" and the right signature for that body, the function raises
  UnicodeDecodeError and returns nothing.
\<close>

theorem verify_webhook_signature_undecodable_body:
  "\<forall>h. verify_webhook_signature h (Bytes [0xFF]) (hexdigest (h [0x6B] [0xFF])) [0x6B]
        = Inl UnicodeDecodeError"
  by (simp add: verify_webhook_signature_def py_decode_def)

subsection \<open>Decoding and encoding again gives the bytes back\<close>

lemma utf8_enc1_bytes1: "b0 < 128 \<Longrightarrow> utf8_enc1 b0 = Some [b0]"
  by (simp add: utf8_enc1_def)

lemma divmod64:
  "z < (64::nat) \<Longrightarrow> (a * 64 + z) div 64 = a \<and> (a * 64 + z) mod 64 = z"
  by simp

lemma utf8_enc1_bytes2:
  assumes "194 \<le> b0" "b0 < 224" "cont b1"
  shows "utf8_enc1 ((b0 - 192) * 64 + (b1 - 128)) = Some [b0, b1]"
proof -
  define x where "x = b0 - 192"
  define y where "y = b1 - 128"
  have b: "b0 = 192 + x" "b1 = 128 + y" and r: "2 \<le> x" "x < 32" "y < 64"
    using assms by (auto simp: x_def y_def cont_def)
  have d: "(x * 64 + y) div 64 = x" "(x * 64 + y) mod 64 = y"
    using divmod64 [of y x] r by blast+
  have lo: "\<not> x * 64 + y < 128" "x * 64 + y < 2048"
    using r by arith+
  show ?thesis
    unfolding utf8_enc1_def x_def [symmetric] y_def [symmetric]
    using d lo b by simp
qed

lemma utf8_enc1_bytes3:
  assumes "224 \<le> b0" "b0 < 240" "cont b1" "cont b2"
    "b0 = 224 \<longrightarrow> 160 \<le> b1" "b0 = 237 \<longrightarrow> b1 < 160"
  shows "utf8_enc1 ((b0 - 224) * 4096 + (b1 - 128) * 64 + (b2 - 128)) = Some [b0, b1, b2]"
proof -
  define x where "x = b0 - 224"
  define y where "y = b1 - 128"
  define z where "z = b2 - 128"
  define cp where "cp = x * 4096 + y * 64 + z"
  have b: "b0 = 224 + x" "b1 = 128 + y" "b2 = 128 + z"
    and r: "x < 16" "y < 64" "z < 64"
    and r0: "x = 0 \<Longrightarrow> 32 \<le> y" and r13: "x = 13 \<Longrightarrow> y < 32"
    using assms by (auto simp: x_def y_def z_def cont_def)
  have e: "cp = (x * 64 + y) * 64 + z"
    by (simp add: cp_def)
  have d1: "cp mod 64 = z" and d2: "cp div 64 = x * 64 + y"
    unfolding e using divmod64 [of z "x * 64 + y"] r by blast+
  have d3: "cp div 64 mod 64 = y" and d4: "cp div 64 div 64 = x"
    unfolding d2 using divmod64 [of y x] r by blast+
  have d5: "cp div 4096 = x"
    using d4 by (simp add: div_mult2_eq)
  have lo1: "\<not> cp < 2048"
  proof (cases "x = 0")
    case True
    with r0 show ?thesis unfolding cp_def by simp
  next
    case False
    then show ?thesis unfolding cp_def by simp
  qed
  have lo2: "cp < 65536"
    using r unfolding cp_def by simp
  have lo3: "\<not> (55296 \<le> cp \<and> cp < 57344)"
  proof -
    consider "x \<le> 12" | "x = 13" | "14 \<le> x" by linarith
    then show ?thesis
    proof cases
      case 1
      with r show ?thesis unfolding cp_def by simp
    next
      case 2
      with r13 r show ?thesis unfolding cp_def by simp
    next
      case 3
      then show ?thesis unfolding cp_def by simp
    qed
  qed
  have lo: "\<not> cp < 128" "\<not> cp < 2048" "cp < 65536" "\<not> (55296 \<le> cp \<and> cp < 57344)"
    using lo1 lo2 lo3 by simp_all
  show ?thesis
    unfolding utf8_enc1_def x_def [symmetric] y_def [symmetric] z_def [symmetric]
      cp_def [symmetric]
    using d1 d3 d5 lo b by simp
qed

lemma utf8_enc1_bytes4:
  assumes "240 \<le> b0" "b0 < 245" "cont b1" "cont b2" "cont b3"
    "b0 = 240 \<longrightarrow> 144 \<le> b1" "b0 = 244 \<longrightarrow> b1 < 144"
  shows "utf8_enc1 ((b0 - 240) * 262144 + (b1 - 128) * 4096 + (b2 - 128) * 64 + (b3 - 128))
    = Some [b0, b1, b2, b3]"
proof -
  define x where "x = b0 - 240"
  define y where "y = b1 - 128"
  define z where "z = b2 - 128"
  define u where "u = b3 - 128"
  define cp where "cp = x * 262144 + y * 4096 + z * 64 + u"
  have b: "b0 = 240 + x" "b1 = 128 + y" "b2 = 128 + z" "b3 = 128 + u"
    and r: "x < 5" "y < 64" "z < 64" "u < 64"
    and r0: "x = 0 \<Longrightarrow> 16 \<le> y" and r4: "x = 4 \<Longrightarrow> y < 16"
    using assms by (auto simp: x_def y_def z_def u_def cont_def)
  have e: "cp = ((x * 64 + y) * 64 + z) * 64 + u"
    by (simp add: cp_def)
  have d1: "cp mod 64 = u" and d2: "cp div 64 = (x * 64 + y) * 64 + z"
    unfolding e using divmod64 [of u "(x * 64 + y) * 64 + z"] r by blast+
  have d3: "cp div 64 mod 64 = z" and d4: "cp div 64 div 64 = x * 64 + y"
    unfolding d2 using divmod64 [of z "x * 64 + y"] r by blast+
  have d5: "cp div 4096 = x * 64 + y"
    using d4 by (simp add: div_mult2_eq)
  have d6: "cp div 4096 mod 64 = y" and d7: "cp div 4096 div 64 = x"
    unfolding d5 using divmod64 [of y x] r by blast+
  have d8: "cp div 262144 = x"
    using d7 by (simp add: div_mult2_eq)
  have lo1: "\<not> cp < 65536"
  proof (cases "x = 0")
    case True
    with r0 show ?thesis unfolding cp_def by simp
  next
    case False
    then show ?thesis unfolding cp_def by simp
  qed
  have lo2: "cp < 1114112"
  proof (cases "x = 4")
    case True
    with r4 r show ?thesis unfolding cp_def by simp
  next
    case False
    with r have "x \<le> 3" by simp
    with r show ?thesis unfolding cp_def by simp
  qed
  have lo: "\<not> cp < 128" "\<not> cp < 2048" "\<not> cp < 65536" "cp < 1114112"
    using lo1 lo2 by simp_all
  show ?thesis
    unfolding utf8_enc1_def x_def [symmetric] y_def [symmetric] z_def [symmetric]
      u_def [symmetric] cp_def [symmetric]
    using d1 d3 d6 d8 lo b by simp
qed

lemma utf8_roundtrip: "utf8_dec bs = Some cps \<Longrightarrow> utf8_enc cps = Some bs"
proof (induction bs arbitrary: cps rule: utf8_dec.induct)
  case 1
  then show ?case by simp
next
  case (2 b0 bs)
  consider (a) "b0 < 128"
    | (b) "\<not> b0 < 128" "194 \<le> b0 \<and> b0 < 224"
    | (c) "\<not> b0 < 128" "\<not> (194 \<le> b0 \<and> b0 < 224)" "224 \<le> b0 \<and> b0 < 240"
    | (d) "\<not> b0 < 128" "\<not> (194 \<le> b0 \<and> b0 < 224)" "\<not> (224 \<le> b0 \<and> b0 < 240)"
          "240 \<le> b0 \<and> b0 < 245"
    | (e) "\<not> b0 < 128" "\<not> (194 \<le> b0 \<and> b0 < 224)" "\<not> (224 \<le> b0 \<and> b0 < 240)"
          "\<not> (240 \<le> b0 \<and> b0 < 245)"
    by blast
  then show ?case
  proof cases
    case a
    with "2.prems" obtain r where "utf8_dec bs = Some r" "cps = b0 # r"
      by auto
    with a "2.IH"(1) show ?thesis
      by (simp add: utf8_enc1_bytes1)
  next
    case b
    with "2.prems" obtain b1 t r where h: "bs = b1 # t" "cont b1" "utf8_dec t = Some r"
      "cps = ((b0 - 192) * 64 + (b1 - 128)) # r"
      by (auto split: list.splits if_splits)
    from "2.IH"(2) [OF b(1) b(2) h(1) h(2) h(3)] b h show ?thesis
      by (simp add: utf8_enc1_bytes2)
  next
    case c
    with "2.prems" obtain b1 b2 t r where h: "bs = b1 # b2 # t"
      "cont b1 \<and> cont b2 \<and> (b0 = 224 \<longrightarrow> 160 \<le> b1) \<and> (b0 = 237 \<longrightarrow> b1 < 160)"
      "utf8_dec t = Some r"
      "cps = ((b0 - 224) * 4096 + (b1 - 128) * 64 + (b2 - 128)) # r"
      by (auto split: list.splits if_splits)
    have "utf8_enc r = Some t"
      using "2.IH"(3) c h by blast
    with c h show ?thesis
      by (simp add: utf8_enc1_bytes3)
  next
    case d
    with "2.prems" obtain b1 b2 b3 t r where h: "bs = b1 # b2 # b3 # t"
      "cont b1 \<and> cont b2 \<and> cont b3 \<and> (b0 = 240 \<longrightarrow> 144 \<le> b1) \<and> (b0 = 244 \<longrightarrow> b1 < 144)"
      "utf8_dec t = Some r"
      "cps = ((b0 - 240) * 262144 + (b1 - 128) * 4096 + (b2 - 128) * 64 + (b3 - 128)) # r"
      by (auto split: list.splits if_splits)
    have "utf8_enc r = Some t"
      using "2.IH"(4) d h by blast
    with d h show ?thesis
      by (simp add: utf8_enc1_bytes4)
  next
    case e
    with "2.prems" show ?thesis by simp
  qed
qed

lemma hex_digit_ascii: "n < 16 \<Longrightarrow> hex_digit n < 128"
  by (simp add: hex_digit_def)

lemma hexdigest_is_ascii: "is_ascii (hexdigest bs)"
proof -
  have "unat b div 16 < 16" for b :: byte
    using unsigned_less [of b, where ?'a = nat] by simp
  then show ?thesis
    by (induction bs) (simp_all add: hexdigest_def is_ascii_def hex_digit_ascii)
qed

lemma py_encode_raw_body:
  assumes "raw_body p = Some raw"
  shows "\<exists>decoded. (case p of Bytes bs \<Rightarrow> py_decode bs | Str s \<Rightarrow> Inr s) = Inr decoded
          \<and> py_encode decoded = Inr raw"
proof (cases p)
  case (Bytes bs)
  from assms have "(if utf8_dec (map unat bs) = None then None else Some bs) = Some raw"
    unfolding raw_body_def Bytes by simp
  then have n: "utf8_dec (map unat bs) \<noteq> None" and r: "raw = bs"
    by (simp_all split: if_splits)
  from n obtain s where s: "utf8_dec (map unat bs) = Some s"
    by blast
  have "utf8_enc s = Some (map unat bs)"
    using s by (rule utf8_roundtrip)
  then have "py_encode s = Inr bs"
    by (simp add: py_encode_def comp_def)
  with Bytes s r show ?thesis
    by (simp add: py_decode_def)
next
  case (Str s)
  with assms show ?thesis
    by (auto simp: raw_body_def py_encode_def)
qed

lemma verify_webhook_signature_malformed:
  assumes "raw_body payload = None \<or> utf8_enc secret = None"
  shows "\<exists>e. verify_webhook_signature h payload signature secret = Inl e"
proof (cases payload)
  case (Bytes bs)
  show ?thesis
  proof (cases "utf8_dec (map unat bs)")
    case None
    with Bytes show ?thesis
      by (simp add: verify_webhook_signature_def py_decode_def)
  next
    case (Some s)
    with Bytes assms have "utf8_enc secret = None"
      by (simp add: raw_body_def)
    with Bytes Some show ?thesis
      by (simp add: verify_webhook_signature_def py_decode_def py_encode_def)
  qed
next
  case (Str s)
  show ?thesis
  proof (cases "utf8_enc secret")
    case None
    with Str show ?thesis
      by (simp add: verify_webhook_signature_def py_encode_def)
  next
    case (Some key)
    with Str assms have "utf8_enc s = None"
      by (simp add: raw_body_def)
    with Str Some show ?thesis
      by (simp add: verify_webhook_signature_def py_encode_def)
  qed
qed

lemma verify_webhook_signature_wellformed:
  assumes "raw_body payload = Some raw" and "utf8_enc secret = Some key"
  shows "verify_webhook_signature h payload signature secret
           = compare_digest (hexdigest (h (map of_nat key) raw)) signature"
proof -
  obtain decoded
    where t: "(case payload of Bytes bs \<Rightarrow> py_decode bs | Str s \<Rightarrow> Inr s) = Inr decoded"
      "py_encode decoded = Inr raw"
    using py_encode_raw_body [OF assms(1)] by blast
  have k: "py_encode secret = Inr (map of_nat key)"
    using assms(2) by (simp add: py_encode_def)
  show ?thesis
    by (simp add: verify_webhook_signature_def t k)
qed

text \<open>
  C2, amended: for every payload, signature string and secret,
  \<open>_verify_webhook_signature\<close> returns True if and only if the payload is a well-formed
  UTF-8 body (or text that UTF-8 can encode), the secret can be encoded, and the
  hexadecimal encoding of HMAC-SHA256, keyed by the UTF-8 bytes of the secret, over the raw
  payload equals the given header signature; for such a payload and secret the result is
  that of the one call of \<open>hmac.compare_digest\<close> on the two strings, the constant-time
  comparison, which is False for every other ASCII signature.
\<close>

theorem verify_webhook_signature_iff:
  "(verify_webhook_signature h payload signature secret = Inr True)
     = (\<exists>body k. raw_body payload = Some body \<and> utf8_enc secret = Some k
          \<and> hexdigest (h (map of_nat k) body) = signature)
   \<and> (raw_body payload = Some raw \<and> utf8_enc secret = Some key \<longrightarrow>
        verify_webhook_signature h payload signature secret
          = compare_digest (hexdigest (h (map of_nat key) raw)) signature)
   \<and> (raw_body payload = Some raw \<and> utf8_enc secret = Some key \<and> is_ascii signature \<longrightarrow>
        verify_webhook_signature h payload signature secret
          = Inr (hexdigest (h (map of_nat key) raw) = signature))"
proof (intro conjI impI)
  show "(verify_webhook_signature h payload signature secret = Inr True)
     = (\<exists>body k. raw_body payload = Some body \<and> utf8_enc secret = Some k
          \<and> hexdigest (h (map of_nat k) body) = signature)"
  proof (cases "raw_body payload = None \<or> utf8_enc secret = None")
    case True
    from verify_webhook_signature_malformed [OF True, of h signature]
    have "verify_webhook_signature h payload signature secret \<noteq> Inr True"
      by auto
    with True show ?thesis
      by auto
  next
    case False
    then obtain body k where b: "raw_body payload = Some body" "utf8_enc secret = Some k"
      by auto
    have a: "is_ascii (hexdigest (h (map of_nat k) body))"
      by (rule hexdigest_is_ascii)
    have "(verify_webhook_signature h payload signature secret = Inr True)
            = (hexdigest (h (map of_nat k) body) = signature)"
      unfolding verify_webhook_signature_wellformed [OF b]
      using a by (auto simp: compare_digest_def)
    with b show ?thesis
      by simp
  qed
next
  assume "raw_body payload = Some raw \<and> utf8_enc secret = Some key"
  then show "verify_webhook_signature h payload signature secret
          = compare_digest (hexdigest (h (map of_nat key) raw)) signature"
    by (simp add: verify_webhook_signature_wellformed)
next
  assume a: "raw_body payload = Some raw \<and> utf8_enc secret = Some key \<and> is_ascii signature"
  then have "verify_webhook_signature h payload signature secret
          = compare_digest (hexdigest (h (map of_nat key) raw)) signature"
    by (simp add: verify_webhook_signature_wellformed)
  with a show "verify_webhook_signature h payload signature secret
          = Inr (hexdigest (h (map of_nat key) raw) = signature)"
    by (simp add: compare_digest_def hexdigest_is_ascii)
qed

theorem verify_webhook_signature_iff_witness:
  "\<forall>h. verify_webhook_signature h (Bytes [0x61, 0xC3, 0xA9]) [0x30, 0x31] [0x6B]
         = Inr (hexdigest (h [0x6B] [0x61, 0xC3, 0xA9]) = [0x30, 0x31])"
  using verify_webhook_signature_iff
    [where payload = "Bytes [0x61, 0xC3, 0xA9]" and raw = "[0x61, 0xC3, 0xA9]"
       and secret = "[0x6B]" and key = "[0x6B]" and signature = "[0x30, 0x31]",
      THEN conjunct2, THEN conjunct2]
  by (simp add: raw_body_def utf8_enc1_def cont_def is_ascii_def)

section \<open>Processing payment data\<close>

lemma STATUS_MAPPING_states:
  assumes "map_of STATUS_MAPPING s = Some st"
  shows "st = ''done'' \<or> st = ''pending'' \<or> st = ''error'' \<or> st = ''cancel''"
  using assms by (simp add: STATUS_MAPPING_def split: if_splits)

text \<open>
  C3, as stated: for every payment\_data whose status is a key of the table the matching
  transition is invoked. With the status \<open>failed\<close> and an \<open>error\<close> entry that is JSON
  \<open>null\<close>, the lookup of the message raises AttributeError and \<open>_set_error\<close> is never
  invoked.
\<close>

theorem process_payment_data_null_error:
  "justifi_process_payment_data
     \<lparr>tx_id = 1, reference = ''S00001'', provider_reference = PStr ''cho_1'',
      tx_state = ''pending'', tx_provider_id = 1\<rparr>
     [(''status'', PStr ''failed''), (''error'', PNone)]
   = (\<lparr>tx_id = 1, reference = ''S00001'', provider_reference = PStr ''cho_1'',
       tx_state = ''pending'', tx_provider_id = 1\<rparr>, [], Some AttributeError)"
  by (simp add: justifi_process_payment_data_def dict_get_def py_or_def STATUS_MAPPING_def)

text \<open>
  C3, amended: for every payment\_data dict whose \<open>status\<close> field is a key of the status
  table and whose \<open>error\<close> entry, when the mapped state is \<open>error\<close>, is absent or a dict,
  \<open>_justifi_process_payment_data\<close> invokes exactly the transition matching the mapped
  local state and returns: \<open>_set_done\<close> followed by \<open>_post_process\<close> for \<open>done\<close>,
  \<open>_set_pending\<close> for \<open>pending\<close>, \<open>_set_error\<close> with the message of the error entry
  (\<open>Payment failed\<close> when there is none) for \<open>error\<close>, \<open>_set_canceled\<close> for \<open>cancel\<close>.
\<close>

theorem process_payment_data_matching_transition:
  assumes "map_of payment_data ''status'' = Some (PStr s)"
    and "map_of STATUS_MAPPING s = Some st"
    and "st = ''error'' \<Longrightarrow> dict_get payment_data ''error'' (PDict []) = PDict err"
  shows "snd (justifi_process_payment_data tx payment_data) =
           (if st = ''done'' then ([SetDone, PostProcess], None)
            else if st = ''pending'' then ([SetPending], None)
            else if st = ''error''
            then ([SetError (dict_get err ''message'' (PStr ''Payment failed''))], None)
            else ([SetCanceled], None))"
proof -
  have l: "status_lookup (dict_get payment_data ''status'' (PStr [])) = Inr st"
    using assms(1,2) by (simp add: dict_get_def)
  from STATUS_MAPPING_states [OF assms(2)]
  consider "st = ''done''" | "st = ''pending''" | "st = ''error''" | "st = ''cancel''"
    by blast
  then show ?thesis
  proof cases
    case 3
    with assms(3) have "dict_get payment_data ''error'' (PDict []) = PDict err"
      by simp
    with 3 l show ?thesis
      by (simp add: justifi_process_payment_data_def Let_def)
  qed (simp_all add: justifi_process_payment_data_def Let_def l)
qed

theorem process_payment_data_matching_transition_witness:
  "snd (justifi_process_payment_data
          \<lparr>tx_id = 1, reference = ''S00001'', provider_reference = PStr ''cho_1'',
           tx_state = ''pending'', tx_provider_id = 1\<rparr>
          [(''status'', PStr ''failed''), (''error'', PDict [(''message'', PStr ''declined'')])])
   = ([SetError (PStr ''declined'')], None)
   \<and> snd (justifi_process_payment_data
          \<lparr>tx_id = 1, reference = ''S00001'', provider_reference = PStr ''cho_1'',
           tx_state = ''pending'', tx_provider_id = 1\<rparr>
          [(''status'', PStr ''succeeded'')])
   = ([SetDone, PostProcess], None)"
  using process_payment_data_matching_transition
    [of "[(''status'', PStr ''failed''), (''error'', PDict [(''message'', PStr ''declined'')])]"
        "''failed''" "''error''" "[(''message'', PStr ''declined'')]"]
    process_payment_data_matching_transition
    [of "[(''status'', PStr ''succeeded'')]" "''succeeded''" "''done''"]
  by (simp add: STATUS_MAPPING_def dict_get_def)

section \<open>Finding the transaction of a notification\<close>

text \<open>
  C7, as stated: the function raises ValidationError when the notification data holds
  neither id. With a \<open>data\<close> entry that is JSON \<open>null\<close> and no id at all, whatever the
  database holds, it raises AttributeError instead.
\<close>

theorem get_tx_from_notification_data_null_data:
  "\<forall>search. justifi_get_tx_from_notification_data search
       \<lparr>provider_id = 1, code = ''justifi'', provider_state = ''enabled'',
        justifi_client_id = None, justifi_client_secret = None, justifi_account_id = None,
        justifi_webhook_secret = None\<rparr>
       [(''data'', PNone)]
     = (Inl AttributeError, [])"
  by (simp add: justifi_get_tx_from_notification_data_def notification_field_def dict_get_def)

text \<open>
  C7, amended: provided the \<open>data\<close> entry of the notification data is absent or a dict
  whenever it is read (it is read only when the top-level \<open>checkout_id\<close> or the top-level
  \<open>successful_payment_id\<close> is missing or empty), the checkout id is \<open>checkout_id\<close> or
  else \<open>data.id\<close>, the payment id is \<open>successful_payment_id\<close> or else
  \<open>data.successful_payment_id\<close>, and the function raises ValidationError when the
  notification data contains neither; otherwise it searches the provider's transactions
  by \<open>provider_reference\<close> equal to the checkout id first, then, only if nothing matched,
  by the payment id, returns the transaction found and raises ValidationError when no
  transaction matches either.
\<close>

theorem get_tx_from_notification_data_spec:
  assumes "a = dict_get nd ''checkout_id'' PNone"
    and "b = dict_get nd ''successful_payment_id'' PNone"
    and "(truthy a \<and> truthy b) \<or> dict_get nd ''data'' (PDict []) = PDict d"
    and "c = (if truthy a then a else dict_get d ''id'' PNone)"
    and "pm = (if truthy b then b else dict_get d ''successful_payment_id'' PNone)"
  shows "justifi_get_tx_from_notification_data search p nd =
     (if \<not> truthy c \<and> \<not> truthy pm
      then (Inl (ValidationError
              ''JustiFi: Missing checkout_id or payment_id in notification data''), [])
      else if truthy c
      then (case search (tx_domain p c) of
              Some t \<Rightarrow> (Inr t, [tx_domain p c])
            | None \<Rightarrow>
                if truthy pm
                then (case search (tx_domain p pm) of
                        Some t \<Rightarrow> (Inr t, [tx_domain p c, tx_domain p pm])
                      | None \<Rightarrow> (Inl (ValidationError ''JustiFi: Transaction not found''),
                                 [tx_domain p c, tx_domain p pm]))
                else (Inl (ValidationError ''JustiFi: Transaction not found''),
                      [tx_domain p c]))
      else (case search (tx_domain p pm) of
              Some t \<Rightarrow> (Inr t, [tx_domain p pm])
            | None \<Rightarrow> (Inl (ValidationError ''JustiFi: Transaction not found''),
                       [tx_domain p pm])))"
proof -
  have c: "notification_field nd ''checkout_id'' ''id'' = Inr c"
    using assms(1,3,4) by (auto simp: notification_field_def Let_def)
  have pm: "notification_field nd ''successful_payment_id'' ''successful_payment_id'' = Inr pm"
    using assms(2,3,5) by (auto simp: notification_field_def Let_def)
  show ?thesis
    unfolding justifi_get_tx_from_notification_data_def c pm
    by (simp add: Let_def split: option.splits)
qed

theorem get_tx_from_notification_data_spec_witness:
  "justifi_get_tx_from_notification_data
     (\<lambda>q. if q = [(''provider_reference'', ''='', PStr ''py_9''), (''provider_id'', ''='', PInt 1)]
           then Some \<lparr>tx_id = 7, reference = ''S00007'', provider_reference = PStr ''py_9'',
                      tx_state = ''pending'', tx_provider_id = 1\<rparr>
           else None)
     \<lparr>provider_id = 1, code = ''justifi'', provider_state = ''enabled'',
      justifi_client_id = None, justifi_client_secret = None, justifi_account_id = None,
      justifi_webhook_secret = None\<rparr>
     [(''checkout_id'', PStr ''cho_1''), (''successful_payment_id'', PStr ''py_9''),
      (''data'', PNone)]
   = (Inr \<lparr>tx_id = 7, reference = ''S00007'', provider_reference = PStr ''py_9'',
            tx_state = ''pending'', tx_provider_id = 1\<rparr>,
      [[(''provider_reference'', ''='', PStr ''cho_1''), (''provider_id'', ''='', PInt 1)],
       [(''provider_reference'', ''='', PStr ''py_9''), (''provider_id'', ''='', PInt 1)]])
   \<and> justifi_get_tx_from_notification_data
     (\<lambda>q. None)
     \<lparr>provider_id = 1, code = ''justifi'', provider_state = ''enabled'',
      justifi_client_id = None, justifi_client_secret = None, justifi_account_id = None,
      justifi_webhook_secret = None\<rparr>
     [(''data'', PDict [(''id'', PStr ''cho_1'')])]
   = (Inl (ValidationError ''JustiFi: Transaction not found''),
      [[(''provider_reference'', ''='', PStr ''cho_1''), (''provider_id'', ''='', PInt 1)]])"
  using get_tx_from_notification_data_spec
    [OF refl refl _ refl refl,
     where nd = "[(''checkout_id'', PStr ''cho_1''), (''successful_payment_id'', PStr ''py_9''),
                  (''data'', PNone)]"
       and d = "[]"
       and p = "\<lparr>provider_id = 1, code = ''justifi'', provider_state = ''enabled'',
      justifi_client_id = None, justifi_client_secret = None, justifi_account_id = None,
      justifi_webhook_secret = None\<rparr>"
       and search = "\<lambda>q. if q = [(''provider_reference'', ''='', PStr ''py_9''),
                                (''provider_id'', ''='', PInt 1)]
           then Some \<lparr>tx_id = 7, reference = ''S00007'', provider_reference = PStr ''py_9'',
                      tx_state = ''pending'', tx_provider_id = 1\<rparr>
           else None"]
    get_tx_from_notification_data_spec
    [OF refl refl _ refl refl,
     where nd = "[(''data'', PDict [(''id'', PStr ''cho_1'')])]"
       and d = "[(''id'', PStr ''cho_1'')]"
       and p = "\<lparr>provider_id = 1, code = ''justifi'', provider_state = ''enabled'',
      justifi_client_id = None, justifi_client_secret = None, justifi_account_id = None,
      justifi_webhook_secret = None\<rparr>"
       and search = "\<lambda>q. None"]
  by (simp add: dict_get_def tx_domain_def)

section \<open>The webhook handlers\<close>

lemma process_call_snd: "snd (process_call t d) = Some (t, d)"
  by (simp add: process_call_def)

lemma handle_payment_success_unfinished:
  assumes "snd (handle_payment_success search p ev) = Some (t, d)"
  shows "\<not> finished t \<and> (\<exists>q. search q = Some t)"
  using assms unfolding handle_payment_success_def Let_def
  by (auto simp: process_call_snd split: sum.splits option.splits pyval.splits if_splits)

lemma handle_payment_failure_unfinished:
  assumes "snd (handle_payment_failure search p ev) = Some (t, d)"
  shows "\<not> finished t \<and> (\<exists>q. search q = Some t)"
  using assms unfolding handle_payment_failure_def
  by (auto simp: process_call_snd split: sum.splits option.splits pyval.splits if_splits)

lemma webhook_dispatch_unfinished:
  assumes "snd (webhook_dispatch search p et ev) = Some (t, d)"
  shows "\<not> finished t \<and> (\<exists>q. search q = Some t)"
  using assms handle_payment_success_unfinished handle_payment_failure_unfinished
  unfolding webhook_dispatch_def by (auto split: if_splits)

lemma justifi_webhook_unfinished:
  assumes "processed (justifi_webhook h sp search req) = Some (t, d)"
  shows "\<not> finished t \<and> (\<exists>q. search q = Some t)"
proof -
  from assms obtain p et ev where "snd (webhook_dispatch search p et ev) = Some (t, d)"
    unfolding justifi_webhook_def Let_def handled_result_def
    by (auto split: sum.splits option.splits if_splits)
  then show ?thesis
    by (rule webhook_dispatch_unfinished)
qed

lemma handle_payment_success_finished:
  assumes "py_get ev ''id'' (PStr []) = Inr cid" and "truthy cid"
    and "search (tx_domain p cid) = Some t" and "finished t"
    and "py_get ev ''successful_payment_id'' (PStr []) = Inr pid"
  shows "handle_payment_success search p ev = (None, None)"
  using assms unfolding handle_payment_success_def Let_def
  by (simp split: pyval.splits)

lemma handle_payment_failure_finished:
  assumes "search (tx_domain p (dict_get ev ''id'' (PStr []))) = Some t" and "finished t"
  shows "snd (handle_payment_failure search p (PDict ev)) = None"
  unfolding handle_payment_failure_def
  by (simp add: assms split: sum.splits)

text \<open>
  C8: the success handler, the failure handler and the webhook endpoint as a whole call
  \<open>_justifi_process_payment_data\<close> only on a transaction the search returned whose state
  is neither \<open>done\<close> nor \<open>cancel\<close>; when the transaction found for the event is in one of
  these two states, the handler makes no call and raises nothing, so the transaction is
  left as it is.
\<close>

theorem webhook_leaves_finished_transactions:
  "(snd (handle_payment_success search p ev) = Some (t, d) \<longrightarrow>
      tx_state t \<noteq> ''done'' \<and> tx_state t \<noteq> ''cancel'' \<and> (\<exists>q. search q = Some t))
   \<and> (snd (handle_payment_failure search p ev) = Some (t, d) \<longrightarrow>
      tx_state t \<noteq> ''done'' \<and> tx_state t \<noteq> ''cancel'' \<and> (\<exists>q. search q = Some t))
   \<and> (processed (justifi_webhook h sp search req) = Some (t, d) \<longrightarrow>
      tx_state t \<noteq> ''done'' \<and> tx_state t \<noteq> ''cancel'' \<and> (\<exists>q. search q = Some t))
   \<and> (dict_get e ''id'' (PStr []) = cid \<and> truthy cid \<and> search (tx_domain p cid) = Some f
        \<and> (tx_state f = ''done'' \<or> tx_state f = ''cancel'') \<longrightarrow>
      handle_payment_success search p (PDict e) = (None, None)
      \<and> snd (handle_payment_failure search p (PDict e)) = None)"
proof -
  have a: "snd (handle_payment_success search p ev) = Some (t, d) \<longrightarrow>
      tx_state t \<noteq> ''done'' \<and> tx_state t \<noteq> ''cancel'' \<and> (\<exists>q. search q = Some t)"
    using handle_payment_success_unfinished [of search p ev t d]
    by (simp add: finished_def)
  have b: "snd (handle_payment_failure search p ev) = Some (t, d) \<longrightarrow>
      tx_state t \<noteq> ''done'' \<and> tx_state t \<noteq> ''cancel'' \<and> (\<exists>q. search q = Some t)"
    using handle_payment_failure_unfinished [of search p ev t d]
    by (simp add: finished_def)
  have c: "processed (justifi_webhook h sp search req) = Some (t, d) \<longrightarrow>
      tx_state t \<noteq> ''done'' \<and> tx_state t \<noteq> ''cancel'' \<and> (\<exists>q. search q = Some t)"
    using justifi_webhook_unfinished [of h sp search req t d]
    by (simp add: finished_def)
  have d: "dict_get e ''id'' (PStr []) = cid \<and> truthy cid \<and> search (tx_domain p cid) = Some f
        \<and> (tx_state f = ''done'' \<or> tx_state f = ''cancel'') \<longrightarrow>
      handle_payment_success search p (PDict e) = (None, None)
      \<and> snd (handle_payment_failure search p (PDict e)) = None"
  proof (intro impI conjI)
    assume h: "dict_get e ''id'' (PStr []) = cid \<and> truthy cid
      \<and> search (tx_domain p cid) = Some f \<and> (tx_state f = ''done'' \<or> tx_state f = ''cancel'')"
    then have f: "finished f"
      by (simp add: finished_def)
    from h f show "handle_payment_success search p (PDict e) = (None, None)"
      by (intro handle_payment_success_finished [of _ cid _ _ f]) simp_all
    from h f handle_payment_failure_finished [of search p e f]
    show "snd (handle_payment_failure search p (PDict e)) = None"
      by simp
  qed
  from a b c d show ?thesis
    by blast
qed

theorem webhook_leaves_finished_transactions_witness:
  "handle_payment_success
     (\<lambda>q. if q = [(''provider_reference'', ''='', PStr ''cho_1''), (''provider_id'', ''='', PInt 1)]
           then Some \<lparr>tx_id = 7, reference = ''S00007'', provider_reference = PStr ''cho_1'',
                      tx_state = ''done'', tx_provider_id = 1\<rparr>
           else None)
     \<lparr>provider_id = 1, code = ''justifi'', provider_state = ''enabled'',
      justifi_client_id = None, justifi_client_secret = None, justifi_account_id = None,
      justifi_webhook_secret = None\<rparr>
     (PDict [(''id'', PStr ''cho_1'')])
   = (None, None)
   \<and> snd (handle_payment_failure
     (\<lambda>q. if q = [(''provider_reference'', ''='', PStr ''cho_1''), (''provider_id'', ''='', PInt 1)]
           then Some \<lparr>tx_id = 7, reference = ''S00007'', provider_reference = PStr ''cho_1'',
                      tx_state = ''done'', tx_provider_id = 1\<rparr>
           else None)
     \<lparr>provider_id = 1, code = ''justifi'', provider_state = ''enabled'',
      justifi_client_id = None, justifi_client_secret = None, justifi_account_id = None,
      justifi_webhook_secret = None\<rparr>
     (PDict [(''id'', PStr ''cho_1'')]))
   = None"
  using webhook_leaves_finished_transactions
    [where e = "[(''id'', PStr ''cho_1'')]" and cid = "PStr ''cho_1''"
       and search = "\<lambda>q. if q = [(''provider_reference'', ''='', PStr ''cho_1''),
                               (''provider_id'', ''='', PInt 1)]
           then Some \<lparr>tx_id = 7, reference = ''S00007'', provider_reference = PStr ''cho_1'',
                      tx_state = ''done'', tx_provider_id = 1\<rparr>
           else None"
       and p = "\<lparr>provider_id = 1, code = ''justifi'', provider_state = ''enabled'',
      justifi_client_id = None, justifi_client_secret = None, justifi_account_id = None,
      justifi_webhook_secret = None\<rparr>"
       and f = "\<lparr>tx_id = 7, reference = ''S00007'', provider_reference = PStr ''cho_1'',
                      tx_state = ''done'', tx_provider_id = 1\<rparr>",
     THEN conjunct2, THEN conjunct2, THEN conjunct2]
  by (simp add: dict_get_def tx_domain_def)

section \<open>The signature gate of the webhook\<close>

lemma handled_result_response:
  "response (handled_result c h) \<noteq> RespError m"
  by (simp add: handled_result_def split: option.splits)










section \<open>The access token\<close>

text \<open>
  C6, as stated: every case other than a 200 response with a non-empty token raises
  ValidationError. A 200 response whose body is not JSON is such a case, and there
  \<open>response.json()\<close> raises JSONDecodeError, which the function lets through.
\<close>

theorem get_access_token_body_not_json:
  "fst (justifi_get_access_token
          (\<lambda>req. Inr \<lparr>status_code = 200, json_body = None\<rparr>)
          \<lparr>provider_id = 1, code = ''justifi'', provider_state = ''enabled'',
           justifi_client_id = Some ''id'', justifi_client_secret = Some ''secret'',
           justifi_account_id = Some ''acc_1'', justifi_webhook_secret = None\<rparr>
          \<lparr>posted = [], drawn = 0\<rparr>)
   = Inl JSONDecodeError"
  by (simp add: justifi_get_access_token_def char_truthy_def requests_post_def)

text \<open>
  C6, amended: \<open>_justifi_get_access_token\<close> returns the \<open>access_token\<close> entry of the
  response when the credentials are set, the HTTP status is 200, the body is a JSON
  object and that entry is present and truthy, and in no other case; it raises
  ValidationError when a credential is missing, on a network error
  (\<open>RequestException\<close>), on any status other than 200, and when the JSON object of a 200
  response lacks a truthy access token.
\<close>

theorem get_access_token_spec:
  "(char_truthy (justifi_client_id p) \<and> char_truthy (justifi_client_secret p)
      \<and> nw (token_request p) = Inr resp \<and> status_code resp = 200
      \<and> json_body resp = Some (PDict d) \<and> truthy (dict_get d ''access_token'' PNone)
    \<longrightarrow> fst (justifi_get_access_token nw p w) = Inr (dict_get d ''access_token'' PNone))
   \<and> (\<not> char_truthy (justifi_client_id p) \<or> \<not> char_truthy (justifi_client_secret p)
      \<or> nw (token_request p) = Inl RequestException
      \<or> (nw (token_request p) = Inr resp \<and> status_code resp \<noteq> 200)
      \<or> (nw (token_request p) = Inr resp \<and> json_body resp = Some (PDict d)
          \<and> \<not> truthy (dict_get d ''access_token'' PNone))
    \<longrightarrow> is_validation_error (fst (justifi_get_access_token nw p w)))
   \<and> (fst (justifi_get_access_token nw p w) = Inr tok
    \<longrightarrow> char_truthy (justifi_client_id p) \<and> char_truthy (justifi_client_secret p)
      \<and> truthy tok
      \<and> (\<exists>r b. nw (token_request p) = Inr r \<and> status_code r = 200
            \<and> json_body r = Some (PDict b) \<and> tok = dict_get b ''access_token'' PNone))"
proof (intro conjI impI)
  assume "char_truthy (justifi_client_id p) \<and> char_truthy (justifi_client_secret p)
      \<and> nw (token_request p) = Inr resp \<and> status_code resp = 200
      \<and> json_body resp = Some (PDict d) \<and> truthy (dict_get d ''access_token'' PNone)"
  then show "fst (justifi_get_access_token nw p w) = Inr (dict_get d ''access_token'' PNone)"
    by (simp add: justifi_get_access_token_def requests_post_def)
next
  assume "\<not> char_truthy (justifi_client_id p) \<or> \<not> char_truthy (justifi_client_secret p)
      \<or> nw (token_request p) = Inl RequestException
      \<or> (nw (token_request p) = Inr resp \<and> status_code resp \<noteq> 200)
      \<or> (nw (token_request p) = Inr resp \<and> json_body resp = Some (PDict d)
          \<and> \<not> truthy (dict_get d ''access_token'' PNone))"
  then show "is_validation_error (fst (justifi_get_access_token nw p w))"
    by (auto simp: justifi_get_access_token_def requests_post_def is_validation_error_def)
next
  assume a: "fst (justifi_get_access_token nw p w) = Inr tok"
  show "char_truthy (justifi_client_id p)"
    using a by (auto simp: justifi_get_access_token_def split: if_splits)
  show "char_truthy (justifi_client_secret p)"
    using a by (auto simp: justifi_get_access_token_def split: if_splits)
  have c: "char_truthy (justifi_client_id p) \<and> char_truthy (justifi_client_secret p)"
    using a by (auto simp: justifi_get_access_token_def split: if_splits)
  from a c obtain r where r: "nw (token_request p) = Inr r"
    by (cases "nw (token_request p)")
       (auto simp: justifi_get_access_token_def requests_post_def split: if_splits)
  from a c r have s: "status_code r = 200"
    by (auto simp: justifi_get_access_token_def requests_post_def split: if_splits)
  from a c r s obtain data where b: "json_body r = Some data"
    by (cases "json_body r")
       (auto simp: justifi_get_access_token_def requests_post_def)
  from a c r s b obtain bd where bd: "data = PDict bd"
    by (cases data) (auto simp: justifi_get_access_token_def requests_post_def)
  from a c r s b bd have t: "tok = dict_get bd ''access_token'' PNone \<and> truthy tok"
    by (auto simp: justifi_get_access_token_def requests_post_def split: if_splits)
  then show "truthy tok"
    by blast
  from r s b bd t
  show "\<exists>r b. nw (token_request p) = Inr r \<and> status_code r = 200
            \<and> json_body r = Some (PDict b) \<and> tok = dict_get b ''access_token'' PNone"
    by blast
qed

theorem get_access_token_spec_witness:
  "fst (justifi_get_access_token
          (\<lambda>req. Inr \<lparr>status_code = 200,
                       json_body = Some (PDict [(''access_token'', PStr ''tok_1'')])\<rparr>)
          \<lparr>provider_id = 1, code = ''justifi'', provider_state = ''enabled'',
           justifi_client_id = Some ''id'', justifi_client_secret = Some ''secret'',
           justifi_account_id = Some ''acc_1'', justifi_webhook_secret = None\<rparr>
          \<lparr>posted = [], drawn = 0\<rparr>)
   = Inr (PStr ''tok_1'')
   \<and> is_validation_error (fst (justifi_get_access_token
          (\<lambda>req. Inr \<lparr>status_code = 401, json_body = None\<rparr>)
          \<lparr>provider_id = 1, code = ''justifi'', provider_state = ''enabled'',
           justifi_client_id = Some ''id'', justifi_client_secret = Some ''secret'',
           justifi_account_id = Some ''acc_1'', justifi_webhook_secret = None\<rparr>
          \<lparr>posted = [], drawn = 0\<rparr>))"
  using get_access_token_spec
    [where nw = "\<lambda>req. Inr \<lparr>status_code = 200,
                       json_body = Some (PDict [(''access_token'', PStr ''tok_1'')])\<rparr>"
       and p = "\<lparr>provider_id = 1, code = ''justifi'', provider_state = ''enabled'',
           justifi_client_id = Some ''id'', justifi_client_secret = Some ''secret'',
           justifi_account_id = Some ''acc_1'', justifi_webhook_secret = None\<rparr>"
       and resp = "\<lparr>status_code = 200,
                       json_body = Some (PDict [(''access_token'', PStr ''tok_1'')])\<rparr>"
       and d = "[(''access_token'', PStr ''tok_1'')]"
       and w = "\<lparr>posted = [], drawn = 0\<rparr>", THEN conjunct1]
    get_access_token_spec
    [where nw = "\<lambda>req. Inr \<lparr>status_code = 401, json_body = None\<rparr>"
       and p = "\<lparr>provider_id = 1, code = ''justifi'', provider_state = ''enabled'',
           justifi_client_id = Some ''id'', justifi_client_secret = Some ''secret'',
           justifi_account_id = Some ''acc_1'', justifi_webhook_secret = None\<rparr>"
       and resp = "\<lparr>status_code = 401, json_body = None\<rparr>"
       and w = "\<lparr>posted = [], drawn = 0\<rparr>", THEN conjunct2, THEN conjunct1]
  by (simp add: char_truthy_def dict_get_def)

section \<open>The two terminal-pay implementations\<close>

lemma get_access_token_world:
  assumes "justifi_get_access_token nw p w = (r, wt)"
  shows "drawn wt = drawn w
         \<and> (posted wt = posted w \<or> posted wt = posted w @ [token_request p])"
  using assms unfolding justifi_get_access_token_def requests_post_def
  by (auto split: if_splits sum.splits option.splits)

lemma send_to_terminal_with_posted:
  assumes "justifi_get_access_token nw p w = (Inr tok, wt)"
  shows "posted (snd (send_to_terminal_with build nw urandom p tid cid w))
           = posted wt @ [build p tok (uuid_str (uuid4 (urandom (drawn w)))) tid cid]
         \<and> drawn (snd (send_to_terminal_with build nw urandom p tid cid w)) = Suc (drawn w)"
proof -
  have d: "drawn wt = drawn w"
    using get_access_token_world [OF assms] by simp
  show ?thesis
    unfolding send_to_terminal_with_def assms requests_post_def
    by (simp add: d Let_def split: sum.splits)
qed

lemma pay_urls_differ:
  "render str_of (url (model_pay_request p tok k tid cid))
     \<noteq> render str_of (url (controller_pay_request p' tok' k' tid' cid'))"
proof
  assume "render str_of (url (model_pay_request p tok k tid cid))
     = render str_of (url (controller_pay_request p' tok' k' tid' cid'))"
  then have "''/pay'' = ''/'' @ render_part str_of (Fmt tid') @ ''/pay''"
    by (simp add: render_def model_pay_request_def controller_pay_request_def)
  then have "length ''/pay'' = length (''/'' @ render_part str_of (Fmt tid') @ ''/pay'')"
    by (rule arg_cong)
  then show False
    by simp
qed

text \<open>
  C4: at the provider with token \<open>tok_1\<close>, the terminal \<open>trm_1\<close> and the checkout
  \<open>cho_1\<close>, the POS model posts to \<open>/v1/terminals/pay\<close> with the checkout and the
  terminal in the body, and the POS controller posts to \<open>/v1/terminals/trm_1/pay\<close> with
  the checkout alone: the two requests differ in the endpoint and in the payload.
\<close>

theorem terminal_pay_requests_differ:
  "map (\<lambda>r. (url r, json r))
     (posted (snd (justifi_send_to_terminal
        (\<lambda>req. Inr \<lparr>status_code = 200,
                     json_body = Some (PDict [(''access_token'', PStr ''tok_1'')])\<rparr>)
        (\<lambda>n i. 0)
        \<lparr>provider_id = 1, code = ''justifi'', provider_state = ''enabled'',
         justifi_client_id = Some ''id'', justifi_client_secret = Some ''secret'',
         justifi_account_id = Some ''acc_1'', justifi_webhook_secret = None\<rparr>
        (PStr ''trm_1'') (PStr ''cho_1'') \<lparr>posted = [], drawn = 0\<rparr>)))
   = [([Lit ''https://api.justifi.ai/oauth/token''],
       PDict [(''client_id'', PStr ''id''), (''client_secret'', PStr ''secret'')]),
      ([Lit ''https://api.justifi.ai/v1/terminals'', Lit ''/pay''],
       PDict [(''checkout_id'', PStr ''cho_1''), (''terminal_id'', PStr ''trm_1'')])]
   \<and> map (\<lambda>r. (url r, json r))
     (posted (snd (send_to_terminal
        (\<lambda>req. Inr \<lparr>status_code = 200,
                     json_body = Some (PDict [(''access_token'', PStr ''tok_1'')])\<rparr>)
        (\<lambda>n i. 0)
        \<lparr>provider_id = 1, code = ''justifi'', provider_state = ''enabled'',
         justifi_client_id = Some ''id'', justifi_client_secret = Some ''secret'',
         justifi_account_id = Some ''acc_1'', justifi_webhook_secret = None\<rparr>
        (PStr ''trm_1'') (PStr ''cho_1'') \<lparr>posted = [], drawn = 0\<rparr>)))
   = [([Lit ''https://api.justifi.ai/oauth/token''],
       PDict [(''client_id'', PStr ''id''), (''client_secret'', PStr ''secret'')]),
      ([Lit ''https://api.justifi.ai/v1/terminals'', Lit ''/'', Fmt (PStr ''trm_1''), Lit ''/pay''],
       PDict [(''checkout_id'', PStr ''cho_1'')])]"
  by (simp add: justifi_send_to_terminal_def send_to_terminal_def send_to_terminal_with_def
        justifi_get_access_token_def requests_post_def char_truthy_def char_val_def
        token_request_def dict_get_def model_pay_request_def controller_pay_request_def
        response_data_def OAUTH_TOKEN_URL_def API_BASE_URL_def TERMINALS_URL_def Let_def)

subsection \<open>The form of the key\<close>

lemma length_hexdigest: "length (hexdigest bs) = 2 * length bs"
  by (induction bs) (simp_all add: hexdigest_def)

lemma hexdigest_Cons:
  "hexdigest (b # bs) = hex_digit (unat b div 16) # hex_digit (unat b mod 16) # hexdigest bs"
  by (simp add: hexdigest_def)

lemma hexdigest_nth:
  "i < length bs \<Longrightarrow> hexdigest bs ! (2 * i) = hex_digit (unat (bs ! i) div 16)"
proof (induction bs arbitrary: i)
  case Nil
  then show ?case by simp
next
  case (Cons b bs)
  show ?case
  proof (cases i)
    case 0
    then show ?thesis by (simp add: hexdigest_Cons)
  next
    case (Suc j)
    with Cons show ?thesis by (simp add: hexdigest_Cons)
  qed
qed

lemma length_uuid4: "length (uuid4 r) = 16"
  by (simp add: uuid4_def)

lemma length_hex_str: "length (hex_str bs) = 2 * length bs"
  by (simp add: hex_str_def length_hexdigest)

lemma uuid_str_length: "length u = 16 \<Longrightarrow> length (uuid_str u) = 36"
  by (simp add: uuid_str_def Let_def length_hex_str)

lemma uuid_str_hyphens:
  assumes "length u = 16"
  shows "uuid_str u ! 8 = CHR ''-''" "uuid_str u ! 13 = CHR ''-''"
    "uuid_str u ! 18 = CHR ''-''" "uuid_str u ! 23 = CHR ''-''"
  using assms by (simp_all add: uuid_str_def Let_def length_hex_str nth_append)

lemma uuid_str_nth14:
  assumes "length u = 16"
  shows "uuid_str u ! 14 = char_of (hex_digit (unat (u ! 6) div 16))"
proof -
  have "uuid_str u ! 14 = hex_str u ! 12"
    using assms by (simp add: uuid_str_def Let_def length_hex_str nth_append)
  also have "\<dots> = char_of (hexdigest u ! (2 * 6))"
    using assms by (simp add: hex_str_def length_hexdigest)
  also have "\<dots> = char_of (hex_digit (unat (u ! 6) div 16))"
    using assms hexdigest_nth [of 6 u] by simp
  finally show ?thesis .
qed

lemma version_nibble: "unat (((x::byte) AND 0x0F) OR 0x40) div 16 = 4"
proof -
  have "drop_bit 4 ((x AND 0x0F) OR 0x40) = (4::byte)"
    by (rule bit_word_eqI) (auto simp: bit_simps)
  then have "unat (drop_bit 4 ((x AND 0x0F) OR 0x40)) = 4"
    by simp
  then show ?thesis
    unfolding unat_drop_bit_eq by (simp add: drop_bit_eq_div)
qed

lemma uuid4_nth6: "uuid4 r ! 6 = (r 6 AND 0x0F) OR 0x40"
  by (simp add: uuid4_def)

lemma char4: "char_of (hex_digit 4) = CHR ''4''"
  by code_simp

lemma uuid_version_char: "uuid_str (uuid4 r) ! 14 = CHR ''4''"
  by (simp add: uuid_str_nth14 length_uuid4 uuid4_nth6 version_nibble char4)

lemma hex_digit_inj:
  assumes "hex_digit a = hex_digit b" and "a < 16" and "b < 16"
  shows "a = b"
  using assms by (simp add: hex_digit_def split: if_splits)

lemma byte_of_nibbles:
  assumes "unat (x::byte) div 16 = unat (y::byte) div 16"
    and "unat x mod 16 = unat y mod 16"
  shows "x = y"
proof -
  have "unat x = 16 * (unat x div 16) + unat x mod 16"
    by simp
  also have "\<dots> = 16 * (unat y div 16) + unat y mod 16"
    using assms by simp
  also have "\<dots> = unat y"
    by simp
  finally show ?thesis
    by (rule unsigned_word_eqI)
qed

lemma byte_nibble_bounds: "unat (x::byte) div 16 < 16" "unat (x::byte) mod 16 < 16"
proof -
  have "unat x < 256"
    using unsigned_less [of x, where ?'a = nat] by simp
  then show "unat x div 16 < 16"
    by simp
  show "unat x mod 16 < 16"
    by simp
qed

lemma hexdigest_inj: "hexdigest u = hexdigest v \<Longrightarrow> u = v"
proof (induction u arbitrary: v)
  case Nil
  then show ?case
    by (cases v) (simp_all add: hexdigest_Cons hexdigest_def)
next
  case (Cons x u)
  then obtain y v' where v: "v = y # v'"
    by (cases v) (simp_all add: hexdigest_Cons hexdigest_def)
  from Cons.prems v
  have h: "hex_digit (unat x div 16) = hex_digit (unat y div 16)"
    "hex_digit (unat x mod 16) = hex_digit (unat y mod 16)"
    "hexdigest u = hexdigest v'"
    by (simp_all add: hexdigest_Cons)
  have "unat x div 16 = unat y div 16"
    using h(1) byte_nibble_bounds(1) [of x] byte_nibble_bounds(1) [of y]
    by (rule hex_digit_inj)
  moreover have "unat x mod 16 = unat y mod 16"
    using h(2) byte_nibble_bounds(2) [of x] byte_nibble_bounds(2) [of y]
    by (rule hex_digit_inj)
  ultimately have "x = y"
    by (rule byte_of_nibbles)
  with Cons.IH [OF h(3)] v show ?case
    by simp
qed

lemma hexdigest_lt_256: "c \<in> set (hexdigest bs) \<Longrightarrow> c < 256"
proof -
  have "is_ascii (hexdigest bs)"
    by (rule hexdigest_is_ascii)
  then show "c \<in> set (hexdigest bs) \<Longrightarrow> c < 256"
    by (auto simp: is_ascii_def list_all_iff)
qed

lemma hex_str_inj:
  assumes "hex_str u = hex_str v"
  shows "u = v"
proof -
  have "map char_of (hexdigest u) = map char_of (hexdigest v)"
    using assms by (simp add: hex_str_def)
  then have "map (of_char :: char \<Rightarrow> nat) (map char_of (hexdigest u))
      = map of_char (map char_of (hexdigest v))"
    by simp
  moreover have "map (of_char :: char \<Rightarrow> nat) (map char_of (hexdigest w)) = hexdigest w" for w
    using hexdigest_lt_256 [of _ w] by (simp add: map_idI)
  ultimately have "hexdigest u = hexdigest v"
    by simp
  then show ?thesis
    by (rule hexdigest_inj)
qed

lemma split_groups:
  "take 8 h @ take 4 (drop 8 h) @ take 4 (drop 12 h) @ take 4 (drop 16 h) @ drop 20 h = h"
proof -
  have a: "take 4 (drop 16 h) @ drop 20 h = drop 16 h"
    using append_take_drop_id [of 4 "drop 16 h"] by simp
  have b: "take 4 (drop 12 h) @ drop 16 h = drop 12 h"
    using append_take_drop_id [of 4 "drop 12 h"] by simp
  have c: "take 4 (drop 8 h) @ drop 12 h = drop 8 h"
    using append_take_drop_id [of 4 "drop 8 h"] by simp
  show ?thesis
    by (simp only: a b c append_take_drop_id)
qed

lemma uuid_str_inj:
  assumes "uuid_str u = uuid_str v" and "length u = 16" and "length v = 16"
  shows "u = v"
proof -
  define h where "h = hex_str u"
  define k where "k = hex_str v"
  have l: "length h = 32" "length k = 32"
    using assms(2,3) by (simp_all add: h_def k_def length_hex_str)
  have "take 8 h @ ''-'' @ take 4 (drop 8 h) @ ''-'' @ take 4 (drop 12 h) @ ''-''
         @ take 4 (drop 16 h) @ ''-'' @ drop 20 h
      = take 8 k @ ''-'' @ take 4 (drop 8 k) @ ''-'' @ take 4 (drop 12 k) @ ''-''
         @ take 4 (drop 16 k) @ ''-'' @ drop 20 k"
    using assms(1) by (simp add: uuid_str_def Let_def h_def k_def)
  then have e: "take 8 h = take 8 k" "take 4 (drop 8 h) = take 4 (drop 8 k)"
    "take 4 (drop 12 h) = take 4 (drop 12 k)" "take 4 (drop 16 h) = take 4 (drop 16 k)"
    "drop 20 h = drop 20 k"
    using l by simp_all
  have "h = take 8 h @ take 4 (drop 8 h) @ take 4 (drop 12 h) @ take 4 (drop 16 h) @ drop 20 h"
    by (simp only: split_groups)
  also have "\<dots> = take 8 k @ take 4 (drop 8 k) @ take 4 (drop 12 k) @ take 4 (drop 16 k) @ drop 20 k"
    by (simp only: e)
  also have "\<dots> = k"
    by (simp only: split_groups)
  finally show ?thesis
    unfolding h_def k_def by (rule hex_str_inj)
qed

lemma uuid4_random_bytes:
  assumes "uuid4 r = uuid4 s" and "i < 16" and "i \<noteq> 6" and "i \<noteq> 8"
  shows "r i = s i"
proof -
  have "uuid4 r ! i = uuid4 s ! i"
    using assms(1) by simp
  then show ?thesis
    using assms(2,3,4) by (simp add: uuid4_def)
qed

text \<open>
  C5, as stated: the fresh UUID makes terminal payment requests safely retriable. The key
  is made inside each call and sent once: a second call for the same provider, terminal
  and checkout takes the next draw of the random source and sends another key, so the
  remote side cannot recognise it as a retry of the first.
\<close>

theorem terminal_pay_retry_sends_new_key:
  "map (\<lambda>r. map_of (headers r) ''Idempotency-Key'')
     (posted (snd (justifi_send_to_terminal
        (\<lambda>req. Inr \<lparr>status_code = 200,
                     json_body = Some (PDict [(''access_token'', PStr ''tok_1'')])\<rparr>)
        (\<lambda>n i. of_nat n)
        \<lparr>provider_id = 1, code = ''justifi'', provider_state = ''enabled'',
         justifi_client_id = Some ''id'', justifi_client_secret = Some ''secret'',
         justifi_account_id = Some ''acc_1'', justifi_webhook_secret = None\<rparr>
        (PStr ''trm_1'') (PStr ''cho_1'')
        (snd (justifi_send_to_terminal
           (\<lambda>req. Inr \<lparr>status_code = 200,
                        json_body = Some (PDict [(''access_token'', PStr ''tok_1'')])\<rparr>)
           (\<lambda>n i. of_nat n)
           \<lparr>provider_id = 1, code = ''justifi'', provider_state = ''enabled'',
            justifi_client_id = Some ''id'', justifi_client_secret = Some ''secret'',
            justifi_account_id = Some ''acc_1'', justifi_webhook_secret = None\<rparr>
           (PStr ''trm_1'') (PStr ''cho_1'') \<lparr>posted = [], drawn = 0\<rparr>)))))
   = [None, Some [Lit (uuid_str (uuid4 (\<lambda>i. 0)))],
      None, Some [Lit (uuid_str (uuid4 (\<lambda>i. 1)))]]
   \<and> uuid_str (uuid4 (\<lambda>i. 0)) \<noteq> uuid_str (uuid4 (\<lambda>i. 1))"
proof
  show "map (\<lambda>r. map_of (headers r) ''Idempotency-Key'')
     (posted (snd (justifi_send_to_terminal
        (\<lambda>req. Inr \<lparr>status_code = 200,
                     json_body = Some (PDict [(''access_token'', PStr ''tok_1'')])\<rparr>)
        (\<lambda>n i. of_nat n)
        \<lparr>provider_id = 1, code = ''justifi'', provider_state = ''enabled'',
         justifi_client_id = Some ''id'', justifi_client_secret = Some ''secret'',
         justifi_account_id = Some ''acc_1'', justifi_webhook_secret = None\<rparr>
        (PStr ''trm_1'') (PStr ''cho_1'')
        (snd (justifi_send_to_terminal
           (\<lambda>req. Inr \<lparr>status_code = 200,
                        json_body = Some (PDict [(''access_token'', PStr ''tok_1'')])\<rparr>)
           (\<lambda>n i. of_nat n)
           \<lparr>provider_id = 1, code = ''justifi'', provider_state = ''enabled'',
            justifi_client_id = Some ''id'', justifi_client_secret = Some ''secret'',
            justifi_account_id = Some ''acc_1'', justifi_webhook_secret = None\<rparr>
           (PStr ''trm_1'') (PStr ''cho_1'') \<lparr>posted = [], drawn = 0\<rparr>)))))
   = [None, Some [Lit (uuid_str (uuid4 (\<lambda>i. 0)))],
      None, Some [Lit (uuid_str (uuid4 (\<lambda>i. 1)))]]"
    by (simp add: justifi_send_to_terminal_def send_to_terminal_with_def
        justifi_get_access_token_def requests_post_def char_truthy_def char_val_def
        token_request_def dict_get_def model_pay_request_def
        response_data_def Let_def)
  show "uuid_str (uuid4 (\<lambda>i. 0)) \<noteq> uuid_str (uuid4 (\<lambda>i. 1))"
  proof
    assume "uuid_str (uuid4 (\<lambda>i. 0)) = uuid_str (uuid4 (\<lambda>i. 1))"
    then have "uuid4 (\<lambda>i. 0) = uuid4 (\<lambda>i. 1)"
      by (rule uuid_str_inj) (simp_all add: length_uuid4)
    then have "(0::byte) = 1"
      by (rule uuid4_random_bytes [of "\<lambda>i. 0" "\<lambda>i. 1" 0]) simp_all
    then show False
      by simp
  qed
qed

text \<open>
  C5, amended: every terminal-pay call that obtains the access token sends exactly one
  terminal-pay request, in the POS model as in the POS controller, whose Idempotency-Key
  header is \<open>str()\<close> of a version-4 UUID newly generated for that call from the next 16
  bytes of the random source: 36 characters with hyphens after the 8th, 12th, 16th and
  20th hexadecimal digit and the version digit 4, which determine every random byte of the
  draw other than bytes 6 and 8; the call advances the source by that one draw, so the
  next call takes the following draw.
\<close>

theorem terminal_pay_idempotency_key:
  assumes "justifi_get_access_token nw p w = (Inr tok, wt)"
    and "f = justifi_send_to_terminal \<or> f = send_to_terminal"
    and "w' = snd (f nw urandom p tid cid w)"
    and "k = uuid_str (uuid4 (urandom (drawn w)))"
  shows "(\<exists>req. posted w' = posted wt @ [req]
           \<and> map_of (headers req) ''Idempotency-Key'' = Some [Lit k])
         \<and> drawn w' = Suc (drawn w)
         \<and> length k = 36
         \<and> k ! 8 = CHR ''-'' \<and> k ! 13 = CHR ''-'' \<and> k ! 18 = CHR ''-'' \<and> k ! 23 = CHR ''-''
         \<and> k ! 14 = CHR ''4''
         \<and> (\<forall>r. k = uuid_str (uuid4 r) \<longrightarrow>
               (\<forall>i. i < 16 \<and> i \<noteq> 6 \<and> i \<noteq> 8 \<longrightarrow> r i = urandom (drawn w) i))"
proof -
  from assms(2) obtain build
    where b: "f = send_to_terminal_with build"
      and h: "\<And>k. map_of (headers (build p tok k tid cid)) ''Idempotency-Key'' = Some [Lit k]"
    by (auto simp: justifi_send_to_terminal_def send_to_terminal_def
          model_pay_request_def controller_pay_request_def)
  from send_to_terminal_with_posted [OF assms(1), of build urandom tid cid] h
  have s: "(\<exists>req. posted w' = posted wt @ [req]
           \<and> map_of (headers req) ''Idempotency-Key'' = Some [Lit k])
         \<and> drawn w' = Suc (drawn w)"
    unfolding assms(3,4) b by blast
  have l: "length k = 36"
    unfolding assms(4) by (simp add: uuid_str_length length_uuid4)
  have y: "k ! 8 = CHR ''-'' \<and> k ! 13 = CHR ''-'' \<and> k ! 18 = CHR ''-'' \<and> k ! 23 = CHR ''-''"
    unfolding assms(4) by (simp add: uuid_str_hyphens length_uuid4)
  have v: "k ! 14 = CHR ''4''"
    unfolding assms(4) by (rule uuid_version_char)
  have u: "\<forall>r. k = uuid_str (uuid4 r) \<longrightarrow>
               (\<forall>i. i < 16 \<and> i \<noteq> 6 \<and> i \<noteq> 8 \<longrightarrow> r i = urandom (drawn w) i)"
  proof (intro allI impI)
    fix r and i :: nat
    assume e: "k = uuid_str (uuid4 r)" and i: "i < 16 \<and> i \<noteq> 6 \<and> i \<noteq> 8"
    from e have "uuid_str (uuid4 r) = uuid_str (uuid4 (urandom (drawn w)))"
      unfolding assms(4) by simp
    then have "uuid4 r = uuid4 (urandom (drawn w))"
      by (rule uuid_str_inj) (simp_all add: length_uuid4)
    then show "r i = urandom (drawn w) i"
      using i by (intro uuid4_random_bytes) simp_all
  qed
  from s l y v u show ?thesis
    by blast
qed

theorem terminal_pay_idempotency_key_witness:
  "map (\<lambda>r. map_of (headers r) ''Idempotency-Key'')
     (posted (snd (send_to_terminal
        (\<lambda>req. Inr \<lparr>status_code = 200,
                     json_body = Some (PDict [(''access_token'', PStr ''tok_1'')])\<rparr>)
        (\<lambda>n i. 0)
        \<lparr>provider_id = 1, code = ''justifi'', provider_state = ''enabled'',
         justifi_client_id = Some ''id'', justifi_client_secret = Some ''secret'',
         justifi_account_id = Some ''acc_1'', justifi_webhook_secret = None\<rparr>
        (PStr ''trm_1'') (PStr ''cho_1'') \<lparr>posted = [], drawn = 0\<rparr>)))
   = [None, Some [Lit (uuid_str (uuid4 (\<lambda>i. 0)))]]
   \<and> drawn (snd (send_to_terminal
        (\<lambda>req. Inr \<lparr>status_code = 200,
                     json_body = Some (PDict [(''access_token'', PStr ''tok_1'')])\<rparr>)
        (\<lambda>n i. 0)
        \<lparr>provider_id = 1, code = ''justifi'', provider_state = ''enabled'',
         justifi_client_id = Some ''id'', justifi_client_secret = Some ''secret'',
         justifi_account_id = Some ''acc_1'', justifi_webhook_secret = None\<rparr>
        (PStr ''trm_1'') (PStr ''cho_1'') \<lparr>posted = [], drawn = 0\<rparr>)) = 1
   \<and> length (uuid_str (uuid4 (\<lambda>i. 0))) = 36
   \<and> uuid_str (uuid4 (\<lambda>i. 0)) ! 14 = CHR ''4''"
  using terminal_pay_idempotency_key
    [OF _ disjI2 [OF refl] refl refl,
     where nw = "\<lambda>req. Inr \<lparr>status_code = 200,
                     json_body = Some (PDict [(''access_token'', PStr ''tok_1'')])\<rparr>"
       and p = "\<lparr>provider_id = 1, code = ''justifi'', provider_state = ''enabled'',
         justifi_client_id = Some ''id'', justifi_client_secret = Some ''secret'',
         justifi_account_id = Some ''acc_1'', justifi_webhook_secret = None\<rparr>"
       and w = "\<lparr>posted = [], drawn = 0\<rparr>"
       and tok = "PStr ''tok_1''"
       and wt = "\<lparr>posted = [token_request \<lparr>provider_id = 1, code = ''justifi'',
         provider_state = ''enabled'',
         justifi_client_id = Some ''id'', justifi_client_secret = Some ''secret'',
         justifi_account_id = Some ''acc_1'', justifi_webhook_secret = None\<rparr>], drawn = 0\<rparr>"
       and urandom = "\<lambda>n i. 0" and tid = "PStr ''trm_1''" and cid = "PStr ''cho_1''"]
  by (simp add: send_to_terminal_def send_to_terminal_with_def
        justifi_get_access_token_def requests_post_def char_truthy_def char_val_def
        token_request_def dict_get_def controller_pay_request_def
        response_data_def Let_def)

section \<open>Cancelling a terminal payment\<close>

text \<open>
  C10, as stated: the cancel RPC answers success whenever an active provider exists and
  the access token is obtained, and the cancel action returns a dict. When the token is
  obtained and the cancel POST itself fails on the network, the exception is not caught
  in the action and the RPC answers \<open>{'error': ...}\<close>; and for a response body
  \<open>{"data": 5}\<close> the action returns the number 5, not a dict.
\<close>

theorem cancel_payment_network_error:
  "fst (justifi_cancel_payment
          (\<lambda>req. if url req = [Lit OAUTH_TOKEN_URL]
                  then Inr \<lparr>status_code = 200,
                            json_body = Some (PDict [(''access_token'', PStr ''tok_1'')])\<rparr>
                  else Inl RequestException)
          (\<lambda>q. Some \<lparr>provider_id = 1, code = ''justifi'', provider_state = ''enabled'',
             justifi_client_id = Some ''id'', justifi_client_secret = Some ''secret'',
             justifi_account_id = Some ''acc_1'', justifi_webhook_secret = None\<rparr>)
          (PStr ''cho_1'') (PStr ''trm_1'') \<lparr>posted = [], drawn = 0\<rparr>)
   = ErrorOf RequestException
   \<and> fst (justifi_cancel_terminal_action
          (\<lambda>req. if url req = [Lit OAUTH_TOKEN_URL]
                  then Inr \<lparr>status_code = 200,
                            json_body = Some (PDict [(''access_token'', PStr ''tok_1'')])\<rparr>
                  else Inr \<lparr>status_code = 200, json_body = Some (PDict [(''data'', PInt 5)])\<rparr>)
          \<lparr>provider_id = 1, code = ''justifi'', provider_state = ''enabled'',
             justifi_client_id = Some ''id'', justifi_client_secret = Some ''secret'',
             justifi_account_id = Some ''acc_1'', justifi_webhook_secret = None\<rparr>
          (PStr ''trm_1'') (PStr ''cho_1'') \<lparr>posted = [], drawn = 0\<rparr>)
   = Inr (PInt 5)"
  by (simp add: justifi_cancel_payment_def justifi_cancel_terminal_action_def
        justifi_get_access_token_def requests_post_def char_truthy_def token_request_def
        cancel_request_def dict_get_def response_data_def)

text \<open>
  C10, amended: whenever an active JustiFi provider exists, the access token is obtained
  and the terminal-cancel POST gets a response, \<open>justifi_cancel_payment\<close> returns
  \<open>{'success': True, 'cancelled': True}\<close>, whatever the status of the response, also 400
  and above: \<open>_justifi_cancel_terminal_action\<close> then never raises, and returns the
  \<open>data\<close> entry of a JSON object body, the object itself when it has no such entry, and
  the empty dict when the body is not a JSON object.
\<close>

theorem cancel_payment_success:
  assumes "search_provider active_provider_domain = Some p"
    and "justifi_get_access_token nw p w = (Inr tok, wt)"
    and "nw (cancel_request p tok tid cid) = Inr resp"
  shows "fst (justifi_cancel_payment nw search_provider cid tid w)
           = Result (PDict [(''success'', PBool True), (''cancelled'', PBool True)])
         \<and> fst (justifi_cancel_terminal_action nw p tid cid w)
           = Inr (case json_body resp of
                    Some (PDict d) \<Rightarrow> dict_get d ''data'' (PDict d)
                  | _ \<Rightarrow> PDict [])"
proof -
  have a: "fst (justifi_cancel_terminal_action nw p tid cid w)
           = Inr (case json_body resp of
                    Some (PDict d) \<Rightarrow> dict_get d ''data'' (PDict d)
                  | _ \<Rightarrow> PDict [])"
    unfolding justifi_cancel_terminal_action_def assms(2) requests_post_def
    by (simp add: assms(3) response_data_def split: option.splits pyval.splits)
  then obtain v w' where "justifi_cancel_terminal_action nw p tid cid w = (Inr v, w')"
    by (cases "justifi_cancel_terminal_action nw p tid cid w") auto
  then have "fst (justifi_cancel_payment nw search_provider cid tid w)
           = Result (PDict [(''success'', PBool True), (''cancelled'', PBool True)])"
    by (simp add: justifi_cancel_payment_def assms(1))
  with a show ?thesis
    by simp
qed

theorem cancel_payment_success_witness:
  "fst (justifi_cancel_payment
          (\<lambda>req. if url req = [Lit OAUTH_TOKEN_URL]
                  then Inr \<lparr>status_code = 200,
                            json_body = Some (PDict [(''access_token'', PStr ''tok_1'')])\<rparr>
                  else Inr \<lparr>status_code = 422, json_body = None\<rparr>)
          (\<lambda>q. Some \<lparr>provider_id = 1, code = ''justifi'', provider_state = ''enabled'',
             justifi_client_id = Some ''id'', justifi_client_secret = Some ''secret'',
             justifi_account_id = Some ''acc_1'', justifi_webhook_secret = None\<rparr>)
          (PStr ''cho_1'') (PStr ''trm_1'') \<lparr>posted = [], drawn = 0\<rparr>)
   = Result (PDict [(''success'', PBool True), (''cancelled'', PBool True)])"
  using cancel_payment_success
    [where nw = "\<lambda>req. if url req = [Lit OAUTH_TOKEN_URL]
                  then Inr \<lparr>status_code = 200,
                            json_body = Some (PDict [(''access_token'', PStr ''tok_1'')])\<rparr>
                  else Inr \<lparr>status_code = 422, json_body = None\<rparr>"
       and search_provider = "\<lambda>q. Some \<lparr>provider_id = 1, code = ''justifi'',
             provider_state = ''enabled'',
             justifi_client_id = Some ''id'', justifi_client_secret = Some ''secret'',
             justifi_account_id = Some ''acc_1'', justifi_webhook_secret = None\<rparr>"
       and p = "\<lparr>provider_id = 1, code = ''justifi'', provider_state = ''enabled'',
             justifi_client_id = Some ''id'', justifi_client_secret = Some ''secret'',
             justifi_account_id = Some ''acc_1'', justifi_webhook_secret = None\<rparr>"
       and w = "\<lparr>posted = [], drawn = 0\<rparr>" and tok = "PStr ''tok_1''"
       and wt = "\<lparr>posted = [token_request \<lparr>provider_id = 1, code = ''justifi'',
             provider_state = ''enabled'',
             justifi_client_id = Some ''id'', justifi_client_secret = Some ''secret'',
             justifi_account_id = Some ''acc_1'', justifi_webhook_secret = None\<rparr>], drawn = 0\<rparr>"
       and tid = "PStr ''trm_1''" and cid = "PStr ''cho_1''"
       and resp = "\<lparr>status_code = 422, json_body = None\<rparr>"]
  by (simp add: justifi_cancel_payment_def justifi_cancel_terminal_action_def
        justifi_get_access_token_def requests_post_def char_truthy_def token_request_def
        cancel_request_def dict_get_def response_data_def)

end
